theory Spec2Isabelle
  imports Complex_Main "HOL-Library.Sublist"
begin

section \<open>The EZNotes front-end (\<open>src/App.tsx\<close>)\<close>

text \<open>
  The development follows the current revision of \<open>App.tsx\<close>, the one with
  pause, resume, cancel and level metering. The component \<open>App\<close> is a set of event
  handlers over React state (\<open>useState\<close>), mutable refs (\<open>useRef\<close>) and browser
  objects (media streams, recorders, timers, animation frames). JavaScript runs one
  handler at a time, so each handler is a function from the state before to the state
  after, and each callback the browser may invoke later (a timer tick, an animation
  frame, the recorder's \<open>stop\<close> event, the resolution of a promise) is a function of
  its own.

  Strings are byte lists (UTF-8). Every string operation of the source used here
  (\<open>endsWith\<close>, \<open>startsWith\<close>, \<open>includes\<close>, \<open>split\<close> and the regular expression of
  \<open>downloadFile\<close>) looks for ASCII characters only, and in UTF-8 an ASCII byte never
  occurs inside the encoding of another character, so the byte-level operations agree
  with the source's operations on UTF-16 code units.
\<close>

subsection \<open>Data\<close>

type_synonym BlobPart = string

record Blob =
  parts :: "BlobPart list"
  blob_type :: string

text \<open>A \<open>File\<close> as the handlers see it: \<open>name\<close>, \<open>type\<close> (the MIME type) and its content.\<close>

record File =
  name :: string
  type :: string
  content :: "BlobPart list"

text \<open>
  A parsed JSON value, the result of \<open>response.json()\<close>. An object is the list of its
  own properties; \<open>map_of\<close> reads one (a parsed object has each key once; should a
  list repeat a key, its first entry is the property). Numbers are the parsed values.
\<close>

datatype json =
    JNull
  | JBool bool
  | JNumber real
  | JString string
  | JArray "json list"
  | JObject "(string \<times> json) list"

text \<open>
  \<open>interface OutputData { soapNote: string; patientSummary: string }\<close>. The fields are
  assigned from the parsed response without a check, so at run time they hold whatever
  JSON value the response carried.
\<close>

record OutputData =
  soapNote :: json
  patientSummary :: json

text \<open>\<open>interface OutputSelection { soapNote: boolean; patientSummary: boolean }\<close>.\<close>

record OutputSelection =
  sel_soapNote :: bool
  sel_patientSummary :: bool

datatype RecordingState = inactive | recording | paused

text \<open>
  A \<open>MediaRecorder\<close> together with what its handlers close over: the \<open>stream\<close> it
  records and the \<open>chunks\<close> array of \<open>startRecording\<close>. \<open>stop_queued\<close> says that
  \<open>stop()\<close> has queued the task that fires \<open>dataavailable\<close> and \<open>stop\<close>.
\<close>

record MediaRecorder =
  stream :: nat
  state :: RecordingState
  chunks :: "BlobPart list"
  stop_queued :: bool

record App =
  \<comment> \<open>\<open>useState\<close>\<close>
  file_state :: "File option"
  isUploading :: bool
  output_state :: "OutputData option"
  error :: "string option"
  outputSelection :: OutputSelection
  isRecording :: bool
  isPaused :: bool
  recordedBlob :: "Blob option"
  recordingTime :: nat
  isPlaying :: bool
  showRecorder :: bool
  audioLevel :: real
  \<comment> \<open>\<open>useRef\<close>\<close>
  isCancellingRef :: bool
  mediaRecorderRef :: "nat option"
  streamRef :: "nat option"
  intervalRef :: "nat option"
  audioContextRef :: "nat option"
  analyserRef :: "nat option"
  animationRef :: "nat option"
  \<comment> \<open>the DOM elements behind \<open>fileInputRef\<close> and \<open>audioRef\<close>: both are always rendered\<close>
  fileInput_value :: string
  audio_src :: "Blob option"
  audio_playing :: bool
  \<comment> \<open>browser objects\<close>
  streams_acquired :: nat
  track_stops :: "nat \<Rightarrow> nat"
  recorders_created :: nat
  recorders :: "nat \<Rightarrow> MediaRecorder"
  intervals_created :: nat
  intervals :: "nat set"
  frames_requested :: nat
  frames :: "nat set"
  contexts_created :: nat
  contexts :: "nat set"
  reset_timeouts :: nat
  mic_level :: real

text \<open>
  The browser side of the state:
  \<^item> streams are numbered in the order \<open>getUserMedia\<close> returns them; \<open>track_stops s st\<close>
    counts the release calls \<open>stream.getTracks().forEach((track) => track.stop())\<close>
    made on stream \<open>st\<close>;
  \<^item> \<open>intervals s\<close> holds the handles of the live \<open>setInterval\<close> timers and \<open>frames s\<close>
    the handles of the pending \<open>requestAnimationFrame\<close> callbacks; both kinds of
    handle are positive integers, so a fresh handle is the successor of the count;
  \<^item> \<open>contexts s\<close> holds the open \<open>AudioContext\<close>s;
  \<^item> \<open>reset_timeouts s\<close> counts the pending \<open>setTimeout\<close> callbacks that reset
    \<open>isCancellingRef\<close>;
  \<^item> \<open>mic_level s\<close> is the normalised level
    \<open>Math.min(rms * 3, 1)\<close> that \<open>updateAudioLevel\<close> computes from the analyser's samples
    at this moment.
\<close>

definition initial_state :: App where
  "initial_state = \<lparr>
     file_state = None, isUploading = False, output_state = None, error = None,
     outputSelection = \<lparr>sel_soapNote = True, sel_patientSummary = True\<rparr>,
     isRecording = False, isPaused = False, recordedBlob = None, recordingTime = 0,
     isPlaying = False, showRecorder = False, audioLevel = 0,
     isCancellingRef = False, mediaRecorderRef = None, streamRef = None,
     intervalRef = None, audioContextRef = None, analyserRef = None, animationRef = None,
     fileInput_value = [], audio_src = None, audio_playing = False,
     streams_acquired = 0, track_stops = (\<lambda>_. 0),
     recorders_created = 0,
     recorders = (\<lambda>_. \<lparr>stream = 0, state = inactive, chunks = [], stop_queued = False\<rparr>),
     intervals_created = 0, intervals = {},
     frames_requested = 0, frames = {},
     contexts_created = 0, contexts = {},
     reset_timeouts = 0, mic_level = 0\<rparr>"

subsection \<open>File selection\<close>

definition endsWith :: "string \<Rightarrow> string \<Rightarrow> bool" where
  "endsWith s x = suffix x s"

definition startsWith :: "string \<Rightarrow> string \<Rightarrow> bool" where
  "startsWith s x = prefix x s"

definition isTextFile :: "File \<Rightarrow> bool" where
  "isTextFile selectedFile \<longleftrightarrow>
     type selectedFile = ''text/plain'' \<or> endsWith (name selectedFile) ''.txt''"

definition isAudioFile :: "File \<Rightarrow> bool" where
  "isAudioFile selectedFile \<longleftrightarrow>
     startsWith (type selectedFile) ''audio/'' \<or>
     endsWith (name selectedFile) ''.mp3'' \<or>
     endsWith (name selectedFile) ''.m4a'' \<or>
     endsWith (name selectedFile) ''.wav''"

definition unsupported_type_message :: string where
  "unsupported_type_message = ''Please select a .txt file or audio file (.mp3, .m4a, .wav)''"

definition handleFileSelect :: "File \<Rightarrow> App \<Rightarrow> App" where
  "handleFileSelect selectedFile s =
     (if isTextFile selectedFile \<or> isAudioFile selectedFile
      then s\<lparr>file_state := Some selectedFile, error := None\<rparr>
      else s\<lparr>error := Some unsupported_type_message, file_state := None\<rparr>)"

subsection \<open>Browser primitives\<close>

definition stop_tracks :: "nat \<Rightarrow> App \<Rightarrow> App" where
  \<comment> \<open>\<open>stream.getTracks().forEach((track) => track.stop())\<close>\<close>
  "stop_tracks st s = s\<lparr>track_stops := (track_stops s)(st := Suc (track_stops s st))\<rparr>"

definition setInterval :: "App \<Rightarrow> nat \<times> App" where
  "setInterval s =
     (let h = Suc (intervals_created s)
      in (h, s\<lparr>intervals_created := h, intervals := insert h (intervals s)\<rparr>))"

definition clearInterval :: "nat \<Rightarrow> App \<Rightarrow> App" where
  "clearInterval h s = s\<lparr>intervals := intervals s - {h}\<rparr>"

definition requestAnimationFrame :: "App \<Rightarrow> nat \<times> App" where
  "requestAnimationFrame s =
     (let h = Suc (frames_requested s)
      in (h, s\<lparr>frames_requested := h, frames := insert h (frames s)\<rparr>))"

definition cancelAnimationFrame :: "nat \<Rightarrow> App \<Rightarrow> App" where
  "cancelAnimationFrame h s = s\<lparr>frames := frames s - {h}\<rparr>"

text \<open>
  The methods of \<open>MediaRecorder\<close>, after the W3C MediaStream Recording specification:
  \<open>pause()\<close> and \<open>resume()\<close> throw \<open>InvalidStateError\<close> on an inactive recorder
  (\<open>None\<close> here); \<open>stop()\<close> on an inactive recorder does nothing, and otherwise makes it
  inactive and queues the task that fires \<open>dataavailable\<close> and then \<open>stop\<close>.
\<close>

definition recorder_start :: "nat \<Rightarrow> App \<Rightarrow> App" where
  "recorder_start r s = s\<lparr>recorders := (recorders s)(r := (recorders s r)\<lparr>state := recording\<rparr>)\<rparr>"

definition recorder_pause :: "nat \<Rightarrow> App \<Rightarrow> App option" where
  "recorder_pause r s =
     (case state (recorders s r) of
        inactive \<Rightarrow> None
      | recording \<Rightarrow> Some (s\<lparr>recorders := (recorders s)(r := (recorders s r)\<lparr>state := paused\<rparr>)\<rparr>)
      | paused \<Rightarrow> Some s)"

definition recorder_resume :: "nat \<Rightarrow> App \<Rightarrow> App option" where
  "recorder_resume r s =
     (case state (recorders s r) of
        inactive \<Rightarrow> None
      | paused \<Rightarrow> Some (s\<lparr>recorders := (recorders s)(r := (recorders s r)\<lparr>state := recording\<rparr>)\<rparr>)
      | recording \<Rightarrow> Some s)"

definition recorder_stop :: "nat \<Rightarrow> App \<Rightarrow> App" where
  "recorder_stop r s =
     (if state (recorders s r) = inactive then s
      else s\<lparr>recorders :=
               (recorders s)(r := (recorders s r)\<lparr>state := inactive, stop_queued := True\<rparr>)\<rparr>)"

subsection \<open>Level metering\<close>

text \<open>
  \<open>updateAudioLevel\<close> stores the level and schedules itself for the next frame. Its guard
  \<open>if (!analyser) return\<close> tests the constant it closes over, which is always an object.
\<close>

definition updateAudioLevel :: "App \<Rightarrow> App" where
  "updateAudioLevel s =
     (let s1 = s\<lparr>audioLevel := mic_level s\<rparr>;
          (h, s2) = requestAnimationFrame s1
      in s2\<lparr>animationRef := Some h\<rparr>)"

definition startAudioLevelMonitoring :: "nat \<Rightarrow> App \<Rightarrow> App" where
  "startAudioLevelMonitoring st s =
     (let c = contexts_created s;
          s1 = s\<lparr>contexts_created := Suc c, contexts := insert c (contexts s)\<rparr>;
          s2 = s1\<lparr>audioContextRef := Some c, analyserRef := Some c\<rparr>
      in updateAudioLevel s2)"

definition stopAudioLevelMonitoring :: "App \<Rightarrow> App" where
  "stopAudioLevelMonitoring s =
     (let s1 = (case animationRef s of
                  None \<Rightarrow> s
                | Some h \<Rightarrow> if h \<noteq> 0 then (cancelAnimationFrame h s)\<lparr>animationRef := None\<rparr> else s);
          s2 = (case audioContextRef s1 of
                  None \<Rightarrow> s1
                | Some c \<Rightarrow> s1\<lparr>contexts := contexts s1 - {c}, audioContextRef := None\<rparr>)
      in s2\<lparr>analyserRef := None, audioLevel := 0\<rparr>)"

text \<open>The browser runs the pending animation frame callback \<open>h\<close>.\<close>

definition animation_frame :: "nat \<Rightarrow> App \<Rightarrow> App" where
  "animation_frame h s =
     (if h \<in> frames s then updateAudioLevel (s\<lparr>frames := frames s - {h}\<rparr>) else s)"

subsection \<open>The recording session\<close>

definition microphone_message :: string where
  "microphone_message = ''Could not access microphone. Please allow microphone access.''"

text \<open>The callback of both \<open>setInterval\<close> calls: \<open>setRecordingTime((prev) => prev + 1)\<close>.\<close>

definition interval_fires :: "nat \<Rightarrow> App \<Rightarrow> App" where
  "interval_fires h s =
     (if h \<in> intervals s then s\<lparr>recordingTime := recordingTime s + 1\<rparr> else s)"

definition ondataavailable :: "nat \<Rightarrow> BlobPart \<Rightarrow> App \<Rightarrow> App" where
  "ondataavailable r data s =
     (if length data > 0
      then s\<lparr>recorders := (recorders s)(r := (recorders s r)\<lparr>chunks := chunks (recorders s r) @ [data]\<rparr>)\<rparr>
      else s)"

definition onstop :: "nat \<Rightarrow> App \<Rightarrow> App" where
  "onstop r s =
     (let s1 = (if \<not> isCancellingRef s
                then (let blob = \<lparr>parts = chunks (recorders s r), blob_type = ''audio/wav''\<rparr>
                      in s\<lparr>recordedBlob := Some blob, audio_src := Some blob\<rparr>)
                else s);
          s2 = stop_tracks (stream (recorders s r)) s1
      in if isCancellingRef s2 then s2\<lparr>reset_timeouts := Suc (reset_timeouts s2)\<rparr> else s2)"

text \<open>
  The task queued by \<open>stop()\<close>: the recorder delivers its data to \<open>ondataavailable\<close> and
  then fires \<open>stop\<close>. It runs once for each \<open>stop()\<close> of an active recorder.
\<close>

definition fire_stop :: "nat \<Rightarrow> BlobPart \<Rightarrow> App \<Rightarrow> App" where
  "fire_stop r data s =
     (if stop_queued (recorders s r)
      then onstop r (ondataavailable r data
             (s\<lparr>recorders := (recorders s)(r := (recorders s r)\<lparr>stop_queued := False\<rparr>)\<rparr>))
      else s)"

text \<open>The \<open>setTimeout\<close> callback of \<open>onstop\<close>, 100 ms later.\<close>

definition cancelling_reset :: "App \<Rightarrow> App" where
  "cancelling_reset s =
     (if reset_timeouts s > 0
      then s\<lparr>isCancellingRef := False, reset_timeouts := reset_timeouts s - 1\<rparr>
      else s)"

datatype getUserMedia = granted | denied

text \<open>
  \<open>startRecording\<close> does nothing but log before \<open>await getUserMedia\<close>; the function below
  is what runs when the promise settles. The constructors of \<open>MediaRecorder\<close> and
  \<open>AudioContext\<close> and \<open>mediaRecorder.start()\<close> are taken to succeed on a fresh stream.
\<close>

definition startRecording :: "getUserMedia \<Rightarrow> App \<Rightarrow> App" where
  "startRecording m s =
     (case m of
        denied \<Rightarrow> s\<lparr>error := Some microphone_message\<rparr>
      | granted \<Rightarrow>
          (let st = streams_acquired s;
               s1 = s\<lparr>streams_acquired := Suc st, track_stops := (track_stops s)(st := 0)\<rparr>;
               s2 = s1\<lparr>streamRef := Some st\<rparr>;
               r = recorders_created s2;
               s3 = s2\<lparr>recorders_created := Suc r,
                       recorders := (recorders s2)
                         (r := \<lparr>stream = st, state = inactive, chunks = [], stop_queued = False\<rparr>)\<rparr>;
               s4 = s3\<lparr>mediaRecorderRef := Some r\<rparr>;
               s5 = startAudioLevelMonitoring st s4;
               s6 = recorder_start r s5;
               s7 = s6\<lparr>isRecording := True, recordingTime := 0\<rparr>;
               (h, s8) = setInterval s7
           in s8\<lparr>intervalRef := Some h\<rparr>))"

text \<open>The first "Start Recording" button: \<open>setShowRecorder(true); setTimeout(startRecording, 100)\<close>.\<close>

definition showRecorderClicked :: "App \<Rightarrow> App" where
  "showRecorderClicked s = s\<lparr>showRecorder := True\<rparr>"

definition clear_intervalRef :: "App \<Rightarrow> App" where
  \<comment> \<open>\<open>if (intervalRef.current) { clearInterval(intervalRef.current); }\<close>\<close>
  "clear_intervalRef s =
     (case intervalRef s of
        None \<Rightarrow> s
      | Some h \<Rightarrow> if h \<noteq> 0 then clearInterval h s else s)"

text \<open>
  In \<open>pauseRecording\<close> and \<open>resumeRecording\<close> the call on the recorder is the first
  statement of the guarded branch: if it throws, the handler ends with the state
  untouched.
\<close>

definition pauseRecording :: "App \<Rightarrow> App" where
  "pauseRecording s =
     (case mediaRecorderRef s of
        None \<Rightarrow> s
      | Some r \<Rightarrow>
          if isRecording s \<and> \<not> isPaused s
          then (case recorder_pause r s of
                  None \<Rightarrow> s
                | Some s1 \<Rightarrow> stopAudioLevelMonitoring (clear_intervalRef (s1\<lparr>isPaused := True\<rparr>)))
          else s)"

definition resumeRecording :: "App \<Rightarrow> App" where
  "resumeRecording s =
     (case mediaRecorderRef s of
        None \<Rightarrow> s
      | Some r \<Rightarrow>
          if isRecording s \<and> isPaused s
          then (case recorder_resume r s of
                  None \<Rightarrow> s
                | Some s1 \<Rightarrow>
                    (let s2 = s1\<lparr>isPaused := False\<rparr>;
                         (h, s3) = setInterval s2;
                         s4 = s3\<lparr>intervalRef := Some h\<rparr>
                     in case streamRef s4 of
                          None \<Rightarrow> s4
                        | Some st \<Rightarrow> startAudioLevelMonitoring st s4))
          else s)"

definition stopRecording :: "App \<Rightarrow> App" where
  "stopRecording s =
     (case mediaRecorderRef s of
        None \<Rightarrow> s
      | Some r \<Rightarrow>
          if isRecording s \<or> isPaused s
          then (let s1 = recorder_stop r s;
                    s2 = s1\<lparr>isRecording := False, isPaused := False\<rparr>
                in stopAudioLevelMonitoring (clear_intervalRef s2))
          else s)"

definition cancelRecording :: "App \<Rightarrow> App" where
  "cancelRecording s =
     (let s1 = s\<lparr>isCancellingRef := True\<rparr>;
          s2 = (case mediaRecorderRef s1 of
                  None \<Rightarrow> s1
                | Some r \<Rightarrow> if isRecording s1 \<or> isPaused s1 then recorder_stop r s1 else s1);
          s3 = s2\<lparr>isRecording := False, isPaused := False, recordingTime := 0,
                  recordedBlob := None, isPlaying := False\<rparr>;
          s4 = clear_intervalRef s3;
          s5 = (case streamRef s4 of
                  None \<Rightarrow> s4
                | Some st \<Rightarrow> (stop_tracks st s4)\<lparr>streamRef := None\<rparr>);
          s6 = stopAudioLevelMonitoring s5
      in s6\<lparr>audio_src := None\<rparr>)"

definition playRecording :: "App \<Rightarrow> App" where
  "playRecording s =
     (if recordedBlob s \<noteq> None
      then (if isPlaying s then s\<lparr>audio_playing := False, isPlaying := False\<rparr>
            else s\<lparr>audio_playing := True, isPlaying := True\<rparr>)
      else s)"

definition clearRecording :: "App \<Rightarrow> App" where
  "clearRecording s =
     (let s1 = s\<lparr>recordedBlob := None, recordingTime := 0, isPlaying := False,
                 isPaused := False, isCancellingRef := False\<rparr>;
          s2 = stopAudioLevelMonitoring s1
      in s2\<lparr>audio_src := None\<rparr>)"

text \<open>The \<open>onClick\<close> handler of the "Generate Another Note" button.\<close>

definition generateAnotherNote :: "App \<Rightarrow> App" where
  "generateAnotherNote s =
     (let s1 = s\<lparr>file_state := None, output_state := None, error := None,
                 outputSelection := \<lparr>sel_soapNote = True, sel_patientSummary = True\<rparr>,
                 showRecorder := False, recordedBlob := None, recordingTime := 0,
                 isPlaying := False, isRecording := False, isPaused := False,
                 isCancellingRef := False\<rparr>;
          s2 = stopAudioLevelMonitoring s1
      in s2\<lparr>fileInput_value := [], audio_src := None\<rparr>)"

text \<open>
  Teardown. The component registers one effect, the state logger
  \<open>useEffect(() => { console.log(...) }, [...])\<close>, and that effect returns no cleanup
  function; no other code of the component runs when it is unmounted.
\<close>

definition unmount :: "App \<Rightarrow> App" where
  "unmount s = s"

subsection \<open>Dates and file names\<close>

text \<open>
  What the handlers read from \<open>new Date()\<close>: the UTC fields that \<open>toISOString\<close> prints
  and the local clock and time zone text that \<open>toTimeString\<close> prints.
\<close>

record Date =
  utc_year :: nat
  utc_month :: nat
  utc_day :: nat
  utc_hours :: nat
  utc_minutes :: nat
  utc_seconds :: nat
  utc_milliseconds :: nat
  local_hours :: nat
  local_minutes :: nat
  local_seconds :: nat
  time_zone :: string

definition digit :: "nat \<Rightarrow> char" where
  "digit n = ''0123456789'' ! (n mod 10)"

fun decimal :: "nat \<Rightarrow> string" where
  "decimal n = (if n < 10 then [digit n] else decimal (n div 10) @ [digit n])"

declare decimal.simps [simp del]

definition padStart :: "nat \<Rightarrow> string \<Rightarrow> string" where
  \<comment> \<open>\<open>str.padStart(w, "0")\<close>\<close>
  "padStart w str = replicate (w - length str) (CHR ''0'') @ str"

definition toISOString :: "Date \<Rightarrow> string" where
  "toISOString d =
     (if utc_year d \<le> 9999 then padStart 4 (decimal (utc_year d))
      else ''+'' @ padStart 6 (decimal (utc_year d))) @
     ''-'' @ padStart 2 (decimal (utc_month d)) @
     ''-'' @ padStart 2 (decimal (utc_day d)) @
     ''T'' @ padStart 2 (decimal (utc_hours d)) @
     '':'' @ padStart 2 (decimal (utc_minutes d)) @
     '':'' @ padStart 2 (decimal (utc_seconds d)) @
     ''.'' @ padStart 3 (decimal (utc_milliseconds d)) @ ''Z''"

definition toTimeString :: "Date \<Rightarrow> string" where
  "toTimeString d =
     padStart 2 (decimal (local_hours d)) @
     '':'' @ padStart 2 (decimal (local_minutes d)) @
     '':'' @ padStart 2 (decimal (local_seconds d)) @
     '' '' @ time_zone d"

definition split_first :: "char \<Rightarrow> string \<Rightarrow> string" where
  \<comment> \<open>\<open>str.split(c)[0]\<close>\<close>
  "split_first c str = takeWhile (\<lambda>x. x \<noteq> c) str"

definition replace_colons :: "string \<Rightarrow> string" where
  \<comment> \<open>\<open>str.replace(/:/g, "-")\<close>\<close>
  "replace_colons str = map (\<lambda>x. if x = CHR '':'' then CHR ''-'' else x) str"

definition generateRecordingFilename :: "Date \<Rightarrow> string" where
  "generateRecordingFilename now =
     (let date = split_first (CHR ''T'') (toISOString now);
          time = replace_colons (split_first (CHR '' '') (toTimeString now))
      in ''recording_'' @ date @ ''_'' @ time @ ''.wav'')"

text \<open>
  The regular expression \<open>/\.[^/.]+$/\<close>: a dot, then one or more characters other than
  \<open>/\<close> and \<open>.\<close>, then the end of the string. \<open>extension_at str\<close> says that it matches
  \<open>str\<close> from its first character; \<open>replace_extension\<close> is
  \<open>str.replace(/\.[^/.]+$/, "")\<close>, which deletes the leftmost match.
\<close>

definition extension_at :: "string \<Rightarrow> bool" where
  "extension_at str =
     (case str of
        [] \<Rightarrow> False
      | c # rest \<Rightarrow> c = CHR ''.'' \<and> rest \<noteq> [] \<and> (\<forall>x \<in> set rest. x \<noteq> CHR ''/'' \<and> x \<noteq> CHR ''.''))"

fun replace_extension :: "string \<Rightarrow> string" where
  "replace_extension [] = []"
| "replace_extension (c # rest) =
     (if extension_at (c # rest) then [] else c # replace_extension rest)"

record Download =
  download :: string
  href :: Blob

definition downloadFile :: "string \<Rightarrow> string \<Rightarrow> Date \<Rightarrow> App \<Rightarrow> Download" where
  "downloadFile text ty now s =
     (let originalName = (case file_state s of
                            Some f \<Rightarrow> replace_extension (name f)
                          | None \<Rightarrow> ''patient-visit'');
          timestamp = split_first (CHR ''T'') (toISOString now);
          filename = originalName @ ''_'' @ ty @ ''_'' @ timestamp @ ''.txt''
      in \<lparr>download = filename, href = \<lparr>parts = [text], blob_type = ''text/plain''\<rparr>\<rparr>)"

definition downloadRecording :: "Date \<Rightarrow> App \<Rightarrow> Download option" where
  "downloadRecording now s =
     (case recordedBlob s of
        None \<Rightarrow> None
      | Some blob \<Rightarrow> Some \<lparr>download = generateRecordingFilename now, href = blob\<rparr>)"

definition useRecording :: "Date \<Rightarrow> App \<Rightarrow> App" where
  "useRecording now s =
     (case recordedBlob s of
        None \<Rightarrow> s
      | Some blob \<Rightarrow>
          s\<lparr>file_state := Some \<lparr>name = generateRecordingFilename now, type = ''audio/wav'',
                                content = parts blob\<rparr>,
            showRecorder := False, error := None\<rparr>)"

subsection \<open>Submission\<close>

text \<open>
  How \<open>fetch\<close> settles: it rejects, or it resolves to a response with \<open>response.ok\<close>, the
  \<open>content-type\<close> header (\<open>None\<close> when absent) and the body as \<open>response.json()\<close> parses
  it (\<open>None\<close> when the body is not JSON and \<open>response.json()\<close> rejects).
\<close>

datatype fetch_result =
    Rejected
  | Response (ok: bool) (content_type: "string option") (body: "json option")

datatype js_error = NetworkError | HttpError | NotJsonError | SyntaxError | TypeError

definition str_includes :: "string \<Rightarrow> string \<Rightarrow> bool" where
  "str_includes str x = sublist x str"

text \<open>
  \<open>result.key\<close> on a parsed JSON value: \<open>undefined\<close> (\<open>None\<close>) unless the value is an
  object with that property. On \<open>null\<close> the access throws; \<open>handle_result\<close> checks that
  first.
\<close>

definition property :: "json \<Rightarrow> string \<Rightarrow> json option" where
  "property result key = (case result of JObject kvs \<Rightarrow> map_of kvs key | _ \<Rightarrow> None)"

fun truthy :: "json \<Rightarrow> bool" where
  "truthy JNull = False"
| "truthy (JBool b) = b"
| "truthy (JNumber x) = (x \<noteq> 0)"
| "truthy (JString str) = (str \<noteq> [])"
| "truthy (JArray _) = True"
| "truthy (JObject _) = True"

definition both_truthy :: "json \<Rightarrow> string \<Rightarrow> string \<Rightarrow> OutputData option" where
  \<comment> \<open>\<open>result.k1 && result.k2\<close>, and the object \<open>setOutput\<close> then receives\<close>
  "both_truthy result k1 k2 =
     (case property result k1 of
        None \<Rightarrow> None
      | Some a \<Rightarrow>
          if \<not> truthy a then None
          else (case property result k2 of
                  None \<Rightarrow> None
                | Some b \<Rightarrow> if truthy b then Some \<lparr>soapNote = a, patientSummary = b\<rparr> else None))"

definition newline :: string where
  "newline = [CHR 0x0A]"

definition degree_sign :: string where
  "degree_sign = [CHR 0xC2, CHR 0xB0]"

definition bullet :: string where
  "bullet = [CHR 0xE2, CHR 0x80, CHR 0xA2]"

fun lines_of :: "string list \<Rightarrow> string" where
  "lines_of [] = []"
| "lines_of [l] = l"
| "lines_of (l # ls) = l @ newline @ lines_of ls"

definition mock_soapNote :: "File \<Rightarrow> string" where
  "mock_soapNote f = lines_of [
       ''SOAP Note - '' @ name f,
       [],
       ''SUBJECTIVE:'',
       ''Patient presents for routine dental examination and cleaning.'',
       [],
       ''OBJECTIVE:'',
       ''- Vital signs: BP 120/80, HR 72, Temp 98.6'' @ degree_sign @ ''F'',
       ''- Oral examination reveals good oral hygiene'',
       ''- No visible cavities or signs of periodontal disease'',
       ''- Gingiva appears healthy with no bleeding on probing'',
       [],
       ''ASSESSMENT:'',
       ''- Patient in good oral health'',
       ''- No active dental disease detected'',
       ''- Recommend continued preventive care'',
       [],
       ''PLAN:'',
       ''- Completed routine dental cleaning'',
       ''- Applied fluoride treatment'',
       ''- Scheduled 6-month follow-up appointment'',
       ''- Reinforced oral hygiene instructions'']"

definition mock_patientSummary :: string where
  "mock_patientSummary = lines_of [
       ''Your Dental Visit Summary'',
       [],
       ''Today'' @ [CHR 0x27] @ ''s Visit:'',
       bullet @ '' We completed your routine dental cleaning and examination'',
       bullet @ '' Your teeth and gums are in excellent health'',
       bullet @ '' No cavities or other dental problems were found'',
       [],
       ''What We Did:'',
       bullet @ '' Thoroughly cleaned your teeth and removed any plaque buildup'',
       bullet @ '' Applied a fluoride treatment to strengthen your teeth'',
       bullet @ '' Conducted a complete oral health examination'',
       [],
       ''Next Steps:'',
       bullet @ '' Continue your daily brushing and flossing routine'',
       bullet @ '' Schedule your next cleaning in 6 months'',
       bullet @ '' Call us if you experience any dental pain or concerns'',
       [],
       ''Your oral health is excellent! Keep up the great work with your daily dental care routine.'']"

definition mockResponse :: "File \<Rightarrow> OutputData" where
  "mockResponse f =
     \<lparr>soapNote = JString (mock_soapNote f), patientSummary = JString mock_patientSummary\<rparr>"

definition handle_result :: "File \<Rightarrow> json \<Rightarrow> js_error + OutputData" where
  "handle_result f result =
     (if result = JNull then Inl TypeError
      else (case both_truthy result ''soap_note_text'' ''patient_summary_text'' of
              Some out \<Rightarrow> Inr out
            | None \<Rightarrow>
                (case both_truthy result ''soapNote'' ''patientSummary'' of
                   Some out \<Rightarrow> Inr out
                 | None \<Rightarrow> Inr (mockResponse f))))"

text \<open>The \<open>try\<close> block of \<open>handleUpload\<close> from the point where \<open>fetch\<close> settles.\<close>

definition upload_try :: "File \<Rightarrow> fetch_result \<Rightarrow> js_error + OutputData" where
  "upload_try f res =
     (case res of
        Rejected \<Rightarrow> Inl NetworkError
      | Response ok' contentType parsed \<Rightarrow>
          if \<not> ok' then Inl HttpError
          else if \<not> (case contentType of
                        None \<Rightarrow> False
                      | Some ct \<Rightarrow> ct \<noteq> [] \<and> str_includes ct ''application/json'')
               then Inl NotJsonError
          else (case parsed of
                  None \<Rightarrow> Inl SyntaxError
                | Some result \<Rightarrow> handle_result f result))"

definition failure_message :: string where
  "failure_message = ''Failed to process file. Please try again.''"

text \<open>
  \<open>handleUpload\<close> runs in two parts, before and after \<open>await fetch(...)\<close>; other handlers
  may run in between. The second part closes over the \<open>file\<close> of the first.
\<close>

definition handleUpload_begin :: "App \<Rightarrow> App" where
  "handleUpload_begin s = s\<lparr>isUploading := True, error := None\<rparr>"

definition handleUpload_settle :: "File \<Rightarrow> fetch_result \<Rightarrow> App \<Rightarrow> App" where
  "handleUpload_settle f res s =
     (let s1 = (case upload_try f res of
                  Inr out \<Rightarrow> s\<lparr>output_state := Some out\<rparr>
                | Inl e \<Rightarrow> s\<lparr>error := Some failure_message\<rparr>)
      in s1\<lparr>isUploading := False\<rparr>)"

definition handleUpload :: "fetch_result \<Rightarrow> App \<Rightarrow> App" where
  "handleUpload res s =
     (case file_state s of
        None \<Rightarrow> s
      | Some f \<Rightarrow> handleUpload_settle f res (handleUpload_begin s))"

subsection \<open>Example inputs\<close>

definition visit_txt :: File where
  "visit_txt = \<lparr>name = ''visit.txt'', type = ''text/plain'', content = [''hello'']\<rparr>"

definition scan_pdf :: File where
  "scan_pdf = \<lparr>name = ''scan.pdf'', type = ''application/pdf'', content = []\<rparr>"

text \<open>
  Responses with an empty text: the new pair alone, the legacy pair alone, the new pair
  with an empty note beside a full legacy pair, and a full new pair beside a legacy
  pair with an empty note.
\<close>

definition empty_note_fields :: "(string \<times> json) list" where
  "empty_note_fields =
     [(''soap_note_text'', JString []), (''patient_summary_text'', JString ''Rest and fluids.'')]"

definition empty_note_response :: json where
  "empty_note_response = JObject empty_note_fields"

definition empty_legacy_response :: json where
  "empty_legacy_response =
     JObject [(''soapNote'', JString ''Checkup.''), (''patientSummary'', JString [])]"

definition empty_note_full_legacy :: json where
  "empty_note_full_legacy =
     JObject [(''soap_note_text'', JString []), (''patient_summary_text'', JString ''Rest and fluids.''),
              (''soapNote'', JString ''Checkup.''), (''patientSummary'', JString ''All is well.'')]"

definition full_notes_empty_legacy :: json where
  "full_notes_empty_legacy =
     JObject [(''soap_note_text'', JString ''S: sore tooth.''),
              (''patient_summary_text'', JString ''Rest and fluids.''),
              (''soapNote'', JString []), (''patientSummary'', JString ''All is well.'')]"

subsection \<open>File names as the specification words them\<close>

text \<open>
  A date the clock can show: the fields of a JavaScript \<open>Date\<close> in the years 0 to 9999.
\<close>

definition valid_date :: "Date \<Rightarrow> bool" where
  "valid_date d \<longleftrightarrow>
     utc_year d \<le> 9999 \<and> 1 \<le> utc_month d \<and> utc_month d \<le> 12 \<and>
     1 \<le> utc_day d \<and> utc_day d \<le> 31 \<and>
     utc_hours d < 24 \<and> utc_minutes d < 60 \<and> utc_seconds d < 60 \<and>
     utc_milliseconds d < 1000 \<and>
     local_hours d < 24 \<and> local_minutes d < 60 \<and> local_seconds d < 60"

text \<open>\<open>YYYY-MM-DD\<close>, digit by digit.\<close>

definition iso_date :: "Date \<Rightarrow> string" where
  "iso_date d =
     [digit (utc_year d div 1000), digit (utc_year d div 100), digit (utc_year d div 10),
      digit (utc_year d), CHR ''-'',
      digit (utc_month d div 10), digit (utc_month d), CHR ''-'',
      digit (utc_day d div 10), digit (utc_day d)]"

text \<open>\<open>HH-MM-SS\<close>, digit by digit.\<close>

definition clock_time :: "Date \<Rightarrow> string" where
  "clock_time d =
     [digit (local_hours d div 10), digit (local_hours d), CHR ''-'',
      digit (local_minutes d div 10), digit (local_minutes d), CHR ''-'',
      digit (local_seconds d div 10), digit (local_seconds d)]"

text \<open>
  \<open>final_extension n base ext\<close>: the name \<open>n\<close> is \<open>base\<close>, a dot and the final extension
  \<open>ext\<close>, which is not empty and holds no further dot (and no slash).
\<close>

definition final_extension :: "string \<Rightarrow> string \<Rightarrow> string \<Rightarrow> bool" where
  "final_extension n base ext \<longleftrightarrow>
     n = base @ ''.'' @ ext \<and> ext \<noteq> [] \<and> CHR ''.'' \<notin> set ext \<and> CHR ''/'' \<notin> set ext"

definition example_date :: Date where
  "example_date = \<lparr>utc_year = 2024, utc_month = 3, utc_day = 9,
     utc_hours = 22, utc_minutes = 5, utc_seconds = 7, utc_milliseconds = 41,
     local_hours = 23, local_minutes = 5, local_seconds = 7,
     time_zone = ''GMT+0100 (Central European Standard Time)''\<rparr>"

subsection \<open>Sessions\<close>

text \<open>
  \<open>session s r st\<close>: the session is in state Recording or Paused (\<open>isRecording\<close> is set,
  \<open>isPaused\<close> tells which), the refs hold recorder \<open>r\<close> and stream \<open>st\<close>, the recorder
  records that stream and is in the matching state, with no \<open>stop\<close> task queued. This is
  what \<open>startRecording\<close> establishes and what pause, resume, timer ticks and animation
  frames preserve.
\<close>

definition session :: "App \<Rightarrow> nat \<Rightarrow> nat \<Rightarrow> bool" where
  "session s r st \<longleftrightarrow>
     isRecording s \<and> mediaRecorderRef s = Some r \<and> streamRef s = Some st \<and>
     stream (recorders s r) = st \<and>
     state (recorders s r) = (if isPaused s then paused else recording) \<and>
     \<not> stop_queued (recorders s r)"

text \<open>
  \<open>callbacks_held s\<close>: every live interval timer is the one \<open>intervalRef\<close> holds and
  every pending animation frame is the one \<open>animationRef\<close> holds.
\<close>

definition callbacks_held :: "App \<Rightarrow> bool" where
  "callbacks_held s \<longleftrightarrow>
     (\<forall>h \<in> intervals s. intervalRef s = Some h \<and> h \<noteq> 0) \<and>
     (\<forall>h \<in> frames s. animationRef s = Some h \<and> h \<noteq> 0)"

text \<open>No periodic callback is left: no live interval timer, no pending animation frame.\<close>

definition quiet :: "App \<Rightarrow> bool" where
  "quiet s \<longleftrightarrow> intervals s = {} \<and> frames s = {}"

text \<open>
  A recording started from the first button, three seconds in; and the same with
  \<open>visit.txt\<close> selected beforehand, submitted while the recording runs, followed by a
  click on "Generate Another Note".
\<close>

definition recording_example :: App where
  "recording_example =
     interval_fires 1 (interval_fires 1 (interval_fires 1
       (startRecording granted (showRecorderClicked initial_state))))"

definition reset_example :: App where
  "reset_example =
     generateAnotherNote
       (handleUpload (Response True (Some ''application/json'') (Some (JObject [])))
          (interval_fires 1
             (startRecording granted (showRecorderClicked (handleFileSelect visit_txt initial_state)))))"

text \<open>
  A double start. The first button shows the panel and calls \<open>startRecording\<close> 100 ms
  later; the panel's own "Start Recording" button is clickable until \<open>isRecording\<close> is
  set, that is until the first \<open>getUserMedia\<close> resolves. Clicking it in that window
  runs \<open>startRecording\<close> twice, and both promises resolve.
\<close>

definition double_start :: App where
  "double_start =
     startRecording granted (startRecording granted (showRecorderClicked initial_state))"

text \<open>
  A second take. A recording is cancelled and its \<open>stop\<close> event has run, which leaves
  the flag-resetting timeout pending for 100 ms; within that time the panel's "Start
  Recording" button starts a new recording.
\<close>

definition second_take :: App where
  "second_take =
     startRecording granted
       (fire_stop 0 ''take1''
          (cancelRecording (startRecording granted (showRecorderClicked initial_state))))"

section \<open>Properties\<close>

subsection \<open>File selection\<close>

text \<open>
  C4 (as amended). A file whose name ends in none of \<open>.txt\<close>, \<open>.mp3\<close>, \<open>.m4a\<close>, \<open>.wav\<close>
  and whose MIME type is neither \<open>text/plain\<close> nor begins with \<open>audio/\<close> is rejected:
  \<open>handleFileSelect\<close> sets the unsupported-type message and sets the active input to
  \<open>null\<close>, whatever it was before; nothing else changes. The rejected file never
  becomes the active input.
\<close>

theorem handleFileSelect_rejects:
  assumes "\<not> endsWith (name f) ''.txt''" and "\<not> endsWith (name f) ''.mp3''"
    and "\<not> endsWith (name f) ''.m4a''" and "\<not> endsWith (name f) ''.wav''"
    and "type f \<noteq> ''text/plain''" and "\<not> startsWith (type f) ''audio/''"
  shows "handleFileSelect f s = s\<lparr>error := Some unsupported_type_message, file_state := None\<rparr> \<and>
         error (handleFileSelect f s) = Some unsupported_type_message \<and>
         file_state (handleFileSelect f s) = None \<and>
         file_state (handleFileSelect f s) \<noteq> Some f"
  using assms by (simp add: handleFileSelect_def isTextFile_def isAudioFile_def)

text \<open>A PDF dropped on an empty form.\<close>

theorem handleFileSelect_rejects_witness:
  "\<not> endsWith (name scan_pdf) ''.txt'' \<and> \<not> endsWith (name scan_pdf) ''.mp3'' \<and>
   \<not> endsWith (name scan_pdf) ''.m4a'' \<and> \<not> endsWith (name scan_pdf) ''.wav'' \<and>
   type scan_pdf \<noteq> ''text/plain'' \<and> \<not> startsWith (type scan_pdf) ''audio/'' \<and>
   handleFileSelect scan_pdf initial_state =
     initial_state\<lparr>error := Some unsupported_type_message, file_state := None\<rparr> \<and>
   error (handleFileSelect scan_pdf initial_state) = Some unsupported_type_message"
  using handleFileSelect_rejects [of scan_pdf initial_state]
  by (simp add: scan_pdf_def endsWith_def startsWith_def suffix_to_prefix)

text \<open>
  The claim as written says that the rejected selection leaves the active input as it
  was. It does not: with \<open>visit.txt\<close> selected, choosing \<open>scan.pdf\<close> clears the
  selection (\<open>setFile(null)\<close> in the \<open>else\<close> branch).
\<close>

theorem handleFileSelect_unchanged_counterexample:
  "file_state (handleFileSelect scan_pdf (handleFileSelect visit_txt initial_state)) \<noteq>
     file_state (handleFileSelect visit_txt initial_state) \<and>
   file_state (handleFileSelect visit_txt initial_state) = Some visit_txt \<and>
   file_state (handleFileSelect scan_pdf (handleFileSelect visit_txt initial_state)) = None"
  by (simp add: handleFileSelect_def isTextFile_def isAudioFile_def endsWith_def startsWith_def
      suffix_to_prefix scan_pdf_def visit_txt_def)

subsection \<open>Submission\<close>

lemma both_truthy_absent:
  "property result k1 = None \<or> property result k2 = None \<Longrightarrow> both_truthy result k1 k2 = None"
  by (auto simp: both_truthy_def split: option.splits)

lemma both_truthy_empty:
  "property result k1 = Some (JString []) \<or> property result k2 = Some (JString [])
   \<Longrightarrow> both_truthy result k1 k2 = None"
  by (auto simp: both_truthy_def split: option.splits)

lemma handleUpload_success:
  assumes "file_state s = Some f" and "str_includes ct ''application/json''"
    and "handle_result f result = Inr out"
  shows "handleUpload (Response True (Some ct) (Some result)) s =
           s\<lparr>isUploading := False, error := None, output_state := Some out\<rparr>"
  using assms
  by (auto simp: handleUpload_def handleUpload_settle_def handleUpload_begin_def upload_try_def
      str_includes_def)

lemma handleUpload_cong:
  "handle_result f r1 = handle_result f r2 \<Longrightarrow> file_state s = Some f \<Longrightarrow>
   handleUpload (Response b ct (Some r1)) s = handleUpload (Response b ct (Some r2)) s"
  by (simp add: handleUpload_def handleUpload_settle_def upload_try_def)

lemma mock_soapNote_header: "prefix (''SOAP Note - '' @ name f @ newline) (mock_soapNote f)"
  by (simp add: mock_soapNote_def)

text \<open>
  C5. When the response has a non-success status, or its \<open>content-type\<close> header is
  missing or does not contain \<open>application/json\<close>, the second part of \<open>handleUpload\<close>
  sets the failure message and leaves the output as it was, in whatever state it runs;
  so does \<open>handleUpload\<close> as a whole, run on a state with an active file. The same
  holds on every other path into the \<open>catch\<close> block.
\<close>

theorem handleUpload_failure_keeps_output:
  assumes "\<not> ok' \<or> \<not> (\<exists>c. ct = Some c \<and> str_includes c ''application/json'')"
  shows "output_state (handleUpload_settle f (Response ok' ct parsed) s) = output_state s \<and>
         error (handleUpload_settle f (Response ok' ct parsed) s) = Some failure_message \<and>
         (file_state s = Some f \<longrightarrow>
            output_state (handleUpload (Response ok' ct parsed) s) = output_state s \<and>
            error (handleUpload (Response ok' ct parsed) s) = Some failure_message) \<and>
         (\<forall>res e. upload_try f res = Inl e \<longrightarrow>
            output_state (handleUpload_settle f res s) = output_state s \<and>
            error (handleUpload_settle f res s) = Some failure_message)"
  using assms
  by (auto simp: handleUpload_def handleUpload_settle_def handleUpload_begin_def upload_try_def
      split: option.splits)

text \<open>An HTML page answered with status 200, while an earlier output is on screen.\<close>

theorem handleUpload_failure_keeps_output_witness:
  "\<not> str_includes ''text/html'' ''application/json'' \<and>
   file_state (initial_state\<lparr>file_state := Some visit_txt,
                              output_state := Some (mockResponse visit_txt)\<rparr>) = Some visit_txt \<and>
   output_state (handleUpload (Response True (Some ''text/html'') None)
     (initial_state\<lparr>file_state := Some visit_txt, output_state := Some (mockResponse visit_txt)\<rparr>))
     = Some (mockResponse visit_txt) \<and>
   error (handleUpload (Response True (Some ''text/html'') None)
     (initial_state\<lparr>file_state := Some visit_txt, output_state := Some (mockResponse visit_txt)\<rparr>))
     = Some failure_message"
  using handleUpload_failure_keeps_output [of True "Some ''text/html''" visit_txt None
      "initial_state\<lparr>file_state := Some visit_txt, output_state := Some (mockResponse visit_txt)\<rparr>"]
  by (simp add: str_includes_def sublist_code(3))

text \<open>
  C6 (as amended). For a response with success status and JSON content type whose parsed
  body is not \<open>null\<close> and in which neither the pair \<open>soap_note_text\<close>,
  \<open>patient_summary_text\<close> nor the pair \<open>soapNote\<close>, \<open>patientSummary\<close> is present,
  \<open>handleUpload\<close> sets the output to the placeholder pair and leaves no error. The
  placeholder's SOAP note begins with \<open>SOAP Note - \<close> and the name of the active file;
  its patient summary is a fixed text.
\<close>

theorem handleUpload_placeholder:
  assumes "file_state s = Some f" and "str_includes ct ''application/json''"
    and "result \<noteq> JNull"
    and "property result ''soap_note_text'' = None \<or> property result ''patient_summary_text'' = None"
    and "property result ''soapNote'' = None \<or> property result ''patientSummary'' = None"
  shows "output_state (handleUpload (Response True (Some ct) (Some result)) s) =
           Some \<lparr>soapNote = JString (mock_soapNote f), patientSummary = JString mock_patientSummary\<rparr> \<and>
         error (handleUpload (Response True (Some ct) (Some result)) s) = None \<and>
         prefix (''SOAP Note - '' @ name f @ newline) (mock_soapNote f)"
proof -
  have "handle_result f result = Inr (mockResponse f)"
    using assms(3-5) by (simp add: handle_result_def both_truthy_absent)
  from handleUpload_success [OF assms(1,2) this] mock_soapNote_header [of f] show ?thesis
    by (simp add: mockResponse_def)
qed

theorem handleUpload_placeholder_witness:
  "file_state (handleFileSelect visit_txt initial_state) = Some visit_txt \<and>
   str_includes ''application/json'' ''application/json'' \<and>
   JObject [(''status'', JString ''ok'')] \<noteq> JNull \<and>
   property (JObject [(''status'', JString ''ok'')]) ''soap_note_text'' = None \<and>
   property (JObject [(''status'', JString ''ok'')]) ''soapNote'' = None \<and>
   output_state (handleUpload (Response True (Some ''application/json'')
       (Some (JObject [(''status'', JString ''ok'')])))
     (handleFileSelect visit_txt initial_state)) =
     Some \<lparr>soapNote = JString (mock_soapNote visit_txt), patientSummary = JString mock_patientSummary\<rparr> \<and>
   error (handleUpload (Response True (Some ''application/json'')
       (Some (JObject [(''status'', JString ''ok'')])))
     (handleFileSelect visit_txt initial_state)) = None"
  using handleUpload_placeholder [of "handleFileSelect visit_txt initial_state" visit_txt
      "''application/json''" "JObject [(''status'', JString ''ok'')]"]
  by (simp add: handleFileSelect_def isTextFile_def visit_txt_def str_includes_def property_def)

text \<open>
  The claim as written fails in two ways. A response whose JSON body is \<open>null\<close> carries
  neither pair, yet \<open>result.soap_note_text\<close> throws on it, the \<open>catch\<close> block runs, and
  the user sees the failure message with no output. And the placeholder is not one fixed
  pair: its SOAP note differs with the name of the file.
\<close>

theorem handleUpload_null_body_counterexample:
  "error (handleUpload (Response True (Some ''application/json'') (Some JNull))
     (handleFileSelect visit_txt initial_state)) = Some failure_message \<and>
   output_state (handleUpload (Response True (Some ''application/json'') (Some JNull))
     (handleFileSelect visit_txt initial_state)) = None \<and>
   mockResponse \<lparr>name = ''a.txt'', type = ''text/plain'', content = []\<rparr> \<noteq>
   mockResponse \<lparr>name = ''b.txt'', type = ''text/plain'', content = []\<rparr>"
  by (simp add: handleUpload_def handleUpload_settle_def handleUpload_begin_def upload_try_def
      handle_result_def handleFileSelect_def isTextFile_def visit_txt_def str_includes_def
      initial_state_def mockResponse_def mock_soapNote_def)

lemma property_filter:
  "k' \<noteq> k \<Longrightarrow> property (JObject (filter (\<lambda>p. fst p \<noteq> k) kvs)) k' = property (JObject kvs) k'"
  by (induction kvs) (auto simp: property_def)

lemma property_filter_same:
  "property (JObject (filter (\<lambda>p. fst p \<noteq> k) kvs)) k = None"
  by (induction kvs) (auto simp: property_def)

lemma both_truthy_filter_other:
  "k1 \<noteq> k \<Longrightarrow> k2 \<noteq> k \<Longrightarrow>
   both_truthy (JObject (filter (\<lambda>p. fst p \<noteq> k) kvs)) k1 k2 = both_truthy (JObject kvs) k1 k2"
  by (simp add: both_truthy_def property_filter cong: option.case_cong if_cong)

lemma both_truthy_filter_same:
  "k1 = k \<or> k2 = k \<Longrightarrow> both_truthy (JObject (filter (\<lambda>p. fst p \<noteq> k) kvs)) k1 k2 = None"
  by (rule both_truthy_absent) (auto simp: property_filter_same)

lemma handle_result_filter_empty:
  assumes "k \<in> {''soap_note_text'', ''patient_summary_text'', ''soapNote'', ''patientSummary''}"
    and "map_of kvs k = Some (JString [])"
  shows "handle_result f (JObject (filter (\<lambda>p. fst p \<noteq> k) kvs)) = handle_result f (JObject kvs)"
proof -
  have e: "property (JObject kvs) k = Some (JString [])"
    using assms(2) by (simp add: property_def)
  consider "k = ''soap_note_text'' \<or> k = ''patient_summary_text''"
    | "k = ''soapNote'' \<or> k = ''patientSummary''"
    using assms(1) by auto
  then show ?thesis
  proof cases
    case 1
    then have "both_truthy (JObject kvs) ''soap_note_text'' ''patient_summary_text'' = None"
      using e by (auto intro: both_truthy_empty)
    moreover have "both_truthy (JObject (filter (\<lambda>p. fst p \<noteq> k) kvs))
        ''soap_note_text'' ''patient_summary_text'' = None"
      using 1 by (auto intro: both_truthy_filter_same)
    moreover have "both_truthy (JObject (filter (\<lambda>p. fst p \<noteq> k) kvs)) ''soapNote'' ''patientSummary''
        = both_truthy (JObject kvs) ''soapNote'' ''patientSummary''"
      using 1 by (auto intro: both_truthy_filter_other)
    ultimately show ?thesis by (simp add: handle_result_def split: option.splits)
  next
    case 2
    then have "both_truthy (JObject kvs) ''soapNote'' ''patientSummary'' = None"
      using e by (auto intro: both_truthy_empty)
    moreover have "both_truthy (JObject (filter (\<lambda>p. fst p \<noteq> k) kvs))
        ''soapNote'' ''patientSummary'' = None"
      using 2 by (auto intro: both_truthy_filter_same)
    moreover have "both_truthy (JObject (filter (\<lambda>p. fst p \<noteq> k) kvs))
        ''soap_note_text'' ''patient_summary_text''
        = both_truthy (JObject kvs) ''soap_note_text'' ''patient_summary_text''"
      using 2 by (auto intro: both_truthy_filter_other)
    ultimately show ?thesis by (simp add: handle_result_def split: option.splits)
  qed
qed

text \<open>
  C10 (as amended). The field tests are truthiness tests, so an empty string counts as a
  missing field. With an active file and a JSON response:
  \<^item> a response in which one of the four fields is the empty string is handled exactly
    as the same response with that field removed;
  \<^item> if \<open>soap_note_text\<close> or \<open>patient_summary_text\<close> is the empty string, the
    placeholder pair is rendered when the legacy pair is not usable either, and the
    legacy pair is rendered when it is usable; the returned new-format texts are
    rendered in neither case;
  \<^item> if \<open>soapNote\<close> or \<open>patientSummary\<close> is the empty string, the placeholder pair is
    rendered when the pair \<open>soap_note_text\<close>, \<open>patient_summary_text\<close> is not usable
    either, and that pair is rendered when it is usable.
\<close>

theorem empty_text_treated_as_absent:
  assumes "file_state s = Some f" and "str_includes ct ''application/json''"
  shows "(k \<in> {''soap_note_text'', ''patient_summary_text'', ''soapNote'', ''patientSummary''} \<and>
          map_of kvs k = Some (JString []) \<longrightarrow>
            handleUpload (Response True (Some ct) (Some (JObject kvs))) s =
            handleUpload (Response True (Some ct) (Some (JObject (filter (\<lambda>p. fst p \<noteq> k) kvs)))) s) \<and>
         ((property result ''soap_note_text'' = Some (JString []) \<or>
           property result ''patient_summary_text'' = Some (JString [])) \<and>
          both_truthy result ''soapNote'' ''patientSummary'' = None \<longrightarrow>
            output_state (handleUpload (Response True (Some ct) (Some result)) s) =
              Some (mockResponse f)) \<and>
         ((property result ''soapNote'' = Some (JString []) \<or>
           property result ''patientSummary'' = Some (JString [])) \<and>
          both_truthy result ''soap_note_text'' ''patient_summary_text'' = None \<longrightarrow>
            output_state (handleUpload (Response True (Some ct) (Some result)) s) =
              Some (mockResponse f)) \<and>
         ((property result ''soap_note_text'' = Some (JString []) \<or>
           property result ''patient_summary_text'' = Some (JString [])) \<and>
          both_truthy result ''soapNote'' ''patientSummary'' = Some out \<longrightarrow>
            output_state (handleUpload (Response True (Some ct) (Some result)) s) = Some out) \<and>
         ((property result ''soapNote'' = Some (JString []) \<or>
           property result ''patientSummary'' = Some (JString [])) \<and>
          both_truthy result ''soap_note_text'' ''patient_summary_text'' = Some out \<longrightarrow>
            output_state (handleUpload (Response True (Some ct) (Some result)) s) = Some out)"
proof (intro conjI impI)
  assume "k \<in> {''soap_note_text'', ''patient_summary_text'', ''soapNote'', ''patientSummary''} \<and>
          map_of kvs k = Some (JString [])"
  then have "handle_result f (JObject kvs) = handle_result f (JObject (filter (\<lambda>p. fst p \<noteq> k) kvs))"
    by (simp add: handle_result_filter_empty)
  then show "handleUpload (Response True (Some ct) (Some (JObject kvs))) s =
            handleUpload (Response True (Some ct) (Some (JObject (filter (\<lambda>p. fst p \<noteq> k) kvs)))) s"
    using assms(1) by (rule handleUpload_cong)
next
  assume a: "(property result ''soap_note_text'' = Some (JString []) \<or>
           property result ''patient_summary_text'' = Some (JString [])) \<and>
          both_truthy result ''soapNote'' ''patientSummary'' = None"
  then have "result \<noteq> JNull" by (auto simp: property_def)
  moreover have "both_truthy result ''soap_note_text'' ''patient_summary_text'' = None"
    using a by (auto intro: both_truthy_empty)
  ultimately have "handle_result f result = Inr (mockResponse f)"
    using a by (simp add: handle_result_def)
  from handleUpload_success [OF assms this]
  show "output_state (handleUpload (Response True (Some ct) (Some result)) s) = Some (mockResponse f)"
    by simp
next
  assume a: "(property result ''soapNote'' = Some (JString []) \<or>
           property result ''patientSummary'' = Some (JString [])) \<and>
          both_truthy result ''soap_note_text'' ''patient_summary_text'' = None"
  then have "result \<noteq> JNull" by (auto simp: property_def)
  moreover have "both_truthy result ''soapNote'' ''patientSummary'' = None"
    using a by (auto intro: both_truthy_empty)
  ultimately have "handle_result f result = Inr (mockResponse f)"
    using a by (simp add: handle_result_def)
  from handleUpload_success [OF assms this]
  show "output_state (handleUpload (Response True (Some ct) (Some result)) s) = Some (mockResponse f)"
    by simp
next
  assume a: "(property result ''soap_note_text'' = Some (JString []) \<or>
           property result ''patient_summary_text'' = Some (JString [])) \<and>
          both_truthy result ''soapNote'' ''patientSummary'' = Some out"
  then have "result \<noteq> JNull" by (auto simp: property_def)
  moreover have "both_truthy result ''soap_note_text'' ''patient_summary_text'' = None"
    using a by (auto intro: both_truthy_empty)
  ultimately have "handle_result f result = Inr out"
    using a by (simp add: handle_result_def)
  from handleUpload_success [OF assms this]
  show "output_state (handleUpload (Response True (Some ct) (Some result)) s) = Some out"
    by simp
next
  assume a: "(property result ''soapNote'' = Some (JString []) \<or>
           property result ''patientSummary'' = Some (JString [])) \<and>
          both_truthy result ''soap_note_text'' ''patient_summary_text'' = Some out"
  then have "result \<noteq> JNull" by (auto simp: property_def)
  then have "handle_result f result = Inr out"
    using a by (simp add: handle_result_def)
  from handleUpload_success [OF assms this]
  show "output_state (handleUpload (Response True (Some ct) (Some result)) s) = Some out"
    by simp
qed

lemma example_responses:
  "map_of empty_note_fields ''soap_note_text'' = Some (JString [])"
  "filter (\<lambda>p. fst p \<noteq> ''soap_note_text'') empty_note_fields =
     [(''patient_summary_text'', JString ''Rest and fluids.'')]"
  "property empty_note_response ''soap_note_text'' = Some (JString [])"
  "both_truthy empty_note_response ''soapNote'' ''patientSummary'' = None"
  "property empty_legacy_response ''patientSummary'' = Some (JString [])"
  "both_truthy empty_legacy_response ''soap_note_text'' ''patient_summary_text'' = None"
  "property empty_note_full_legacy ''soap_note_text'' = Some (JString [])"
  "both_truthy empty_note_full_legacy ''soapNote'' ''patientSummary'' =
     Some \<lparr>soapNote = JString ''Checkup.'', patientSummary = JString ''All is well.''\<rparr>"
  "property full_notes_empty_legacy ''soapNote'' = Some (JString [])"
  "both_truthy full_notes_empty_legacy ''soap_note_text'' ''patient_summary_text'' =
     Some \<lparr>soapNote = JString ''S: sore tooth.'', patientSummary = JString ''Rest and fluids.''\<rparr>"
  by (simp_all add: empty_note_fields_def empty_note_response_def empty_legacy_response_def
      empty_note_full_legacy_def full_notes_empty_legacy_def property_def both_truthy_def)

lemma visit_txt_selected:
  "file_state (handleFileSelect visit_txt initial_state) = Some visit_txt"
  by (simp add: handleFileSelect_def isTextFile_def visit_txt_def)

lemma json_content_type: "str_includes ''application/json'' ''application/json''"
  by (simp add: str_includes_def)

text \<open>
  \<open>visit.txt\<close> is submitted and the service answers, in turn: an empty SOAP note with a
  patient summary (handled as the summary alone; placeholder); a legacy note with an
  empty legacy summary (placeholder); an empty SOAP note beside a full legacy pair (the
  legacy pair); a full new pair beside an empty legacy note (the new pair).
\<close>

theorem empty_text_treated_as_absent_witness:
  "file_state (handleFileSelect visit_txt initial_state) = Some visit_txt \<and>
   str_includes ''application/json'' ''application/json'' \<and>
   map_of empty_note_fields ''soap_note_text'' = Some (JString []) \<and>
   handleUpload (Response True (Some ''application/json'') (Some (JObject empty_note_fields)))
      (handleFileSelect visit_txt initial_state) =
     handleUpload (Response True (Some ''application/json'')
        (Some (JObject [(''patient_summary_text'', JString ''Rest and fluids.'')])))
      (handleFileSelect visit_txt initial_state) \<and>
   output_state (handleUpload (Response True (Some ''application/json'') (Some empty_note_response))
      (handleFileSelect visit_txt initial_state)) = Some (mockResponse visit_txt) \<and>
   output_state (handleUpload (Response True (Some ''application/json'') (Some empty_legacy_response))
      (handleFileSelect visit_txt initial_state)) = Some (mockResponse visit_txt) \<and>
   output_state (handleUpload (Response True (Some ''application/json'') (Some empty_note_full_legacy))
      (handleFileSelect visit_txt initial_state)) =
     Some \<lparr>soapNote = JString ''Checkup.'', patientSummary = JString ''All is well.''\<rparr> \<and>
   output_state (handleUpload (Response True (Some ''application/json'') (Some full_notes_empty_legacy))
      (handleFileSelect visit_txt initial_state)) =
     Some \<lparr>soapNote = JString ''S: sore tooth.'', patientSummary = JString ''Rest and fluids.''\<rparr>"
proof -
  note t = empty_text_treated_as_absent [OF visit_txt_selected json_content_type]
  from t [where k = "''soap_note_text''" and kvs = empty_note_fields and result = empty_note_response]
  have 1: "handleUpload (Response True (Some ''application/json'') (Some (JObject empty_note_fields)))
      (handleFileSelect visit_txt initial_state) =
     handleUpload (Response True (Some ''application/json'')
        (Some (JObject [(''patient_summary_text'', JString ''Rest and fluids.'')])))
      (handleFileSelect visit_txt initial_state)"
    and 2: "output_state (handleUpload (Response True (Some ''application/json'')
      (Some empty_note_response)) (handleFileSelect visit_txt initial_state)) =
      Some (mockResponse visit_txt)"
    by (simp_all add: example_responses)
  from t [where result = empty_legacy_response]
  have 3: "output_state (handleUpload (Response True (Some ''application/json'')
      (Some empty_legacy_response)) (handleFileSelect visit_txt initial_state)) =
      Some (mockResponse visit_txt)"
    by (simp add: example_responses)
  from t [where result = empty_note_full_legacy
      and out = "\<lparr>soapNote = JString ''Checkup.'', patientSummary = JString ''All is well.''\<rparr>"]
  have 4: "output_state (handleUpload (Response True (Some ''application/json'')
      (Some empty_note_full_legacy)) (handleFileSelect visit_txt initial_state)) =
      Some \<lparr>soapNote = JString ''Checkup.'', patientSummary = JString ''All is well.''\<rparr>"
    by (simp add: example_responses)
  from t [where result = full_notes_empty_legacy
      and out = "\<lparr>soapNote = JString ''S: sore tooth.'', patientSummary = JString ''Rest and fluids.''\<rparr>"]
  have 5: "output_state (handleUpload (Response True (Some ''application/json'')
      (Some full_notes_empty_legacy)) (handleFileSelect visit_txt initial_state)) =
      Some \<lparr>soapNote = JString ''S: sore tooth.'', patientSummary = JString ''Rest and fluids.''\<rparr>"
    by (simp add: example_responses)
  from 1 2 3 4 5 visit_txt_selected json_content_type example_responses(1)
  show ?thesis by blast
qed

text \<open>
  The claim as written promises the placeholder whenever \<open>soap_note_text\<close> or
  \<open>patient_summary_text\<close> is empty. With an empty \<open>soap_note_text\<close> beside a full
  legacy pair, the \<open>else if\<close> branch renders the legacy pair instead.
\<close>

theorem empty_text_placeholder_counterexample:
  "property empty_note_full_legacy ''soap_note_text'' = Some (JString []) \<and>
   output_state (handleUpload (Response True (Some ''application/json'') (Some empty_note_full_legacy))
      (handleFileSelect visit_txt initial_state)) =
     Some \<lparr>soapNote = JString ''Checkup.'', patientSummary = JString ''All is well.''\<rparr> \<and>
   output_state (handleUpload (Response True (Some ''application/json'') (Some empty_note_full_legacy))
      (handleFileSelect visit_txt initial_state)) \<noteq> Some (mockResponse visit_txt)"
proof -
  have "handle_result visit_txt empty_note_full_legacy =
      Inr \<lparr>soapNote = JString ''Checkup.'', patientSummary = JString ''All is well.''\<rparr>"
    by (simp add: handle_result_def example_responses both_truthy_empty)
      (simp add: empty_note_full_legacy_def)
  from handleUpload_success [OF visit_txt_selected json_content_type this] example_responses(7)
  show ?thesis by (simp add: mockResponse_def mock_patientSummary_def)
qed

subsection \<open>Error messages\<close>

lemma success_clears_error:
  "isTextFile f \<or> isAudioFile f \<Longrightarrow> error (handleFileSelect f s) = None"
  "recordedBlob s \<noteq> None \<Longrightarrow> error (useRecording now s) = None"
  "file_state s = Some f' \<Longrightarrow> upload_try f' res = Inr out \<Longrightarrow>
     error (handleUpload res s) = None"
  by (auto simp: handleFileSelect_def useRecording_def handleUpload_def handleUpload_begin_def
      handleUpload_settle_def)

text \<open>
  C8. The claim lists a successful recording start among the actions that clear the
  error message. \<open>startRecording\<close> never calls \<open>setError(null)\<close>: after a refused
  microphone, a second attempt that succeeds starts the recording and leaves the
  message of the first attempt on screen. The other three actions of the claim do clear
  it (\<open>success_clears_error\<close>).
\<close>

theorem startRecording_stale_error:
  "error (startRecording granted (startRecording denied initial_state)) = Some microphone_message \<and>
   isRecording (startRecording granted (startRecording denied initial_state))"
  by (simp add: startRecording_def setInterval_def recorder_start_def startAudioLevelMonitoring_def
      updateAudioLevel_def requestAnimationFrame_def Let_def initial_state_def)

subsection \<open>Download names\<close>

lemma digit_cases: "digit n \<in> set ''0123456789''"
  unfolding digit_def by (rule nth_mem) simp

lemma digit_0: "digit 0 = CHR ''0''"
  by (simp add: digit_def)

lemma decimal_1: "n < 10 \<Longrightarrow> decimal n = [digit n]"
  by (simp add: decimal.simps [of n])

lemma decimal_2: "10 \<le> n \<Longrightarrow> n < 100 \<Longrightarrow> decimal n = [digit (n div 10), digit n]"
  by (simp add: decimal.simps [of n] decimal_1)

lemma decimal_3: "100 \<le> n \<Longrightarrow> n < 1000 \<Longrightarrow> decimal n = [digit (n div 100), digit (n div 10), digit n]"
  by (simp add: decimal.simps [of n] decimal_2 div_mult2_eq [symmetric])

lemma decimal_4: "1000 \<le> n \<Longrightarrow> n < 10000 \<Longrightarrow>
   decimal n = [digit (n div 1000), digit (n div 100), digit (n div 10), digit n]"
  by (simp add: decimal.simps [of n] decimal_3 div_mult2_eq [symmetric])

lemma replicate_0s:
  "replicate (Suc 0) c = [c]" "replicate 2 c = [c, c]" "replicate 3 c = [c, c, c]"
  by (simp_all add: numeral_2_eq_2 numeral_3_eq_3)

lemma pad2: "n < 100 \<Longrightarrow> padStart 2 (decimal n) = [digit (n div 10), digit n]"
proof (cases "n < 10")
  case True
  then show ?thesis by (simp add: padStart_def decimal_1 digit_0 replicate_0s)
next
  case False
  assume "n < 100"
  with False show ?thesis by (simp add: padStart_def decimal_2)
qed

lemma pad3: "n < 1000 \<Longrightarrow> padStart 3 (decimal n) = [digit (n div 100), digit (n div 10), digit n]"
proof -
  assume n: "n < 1000"
  consider "n < 10" | "10 \<le> n" "n < 100" | "100 \<le> n"
    by linarith
  then show ?thesis
  proof cases
    case 1
    then show ?thesis by (simp add: padStart_def decimal_1 digit_0 replicate_0s)
  next
    case 2
    then show ?thesis by (simp add: padStart_def decimal_2 digit_0 replicate_0s)
  next
    case 3
    with n show ?thesis by (simp add: padStart_def decimal_3)
  qed
qed

lemma pad4: "n \<le> 9999 \<Longrightarrow> padStart 4 (decimal n) =
    [digit (n div 1000), digit (n div 100), digit (n div 10), digit n]"
proof -
  assume n: "n \<le> 9999"
  consider "n < 10" | "10 \<le> n" "n < 100" | "100 \<le> n" "n < 1000" | "1000 \<le> n"
    by linarith
  then show ?thesis
  proof cases
    case 1
    then show ?thesis by (simp add: padStart_def decimal_1 digit_0 replicate_0s)
  next
    case 2
    then show ?thesis by (simp add: padStart_def decimal_2 digit_0 replicate_0s)
  next
    case 3
    then show ?thesis by (simp add: padStart_def decimal_3 digit_0 replicate_0s)
  next
    case 4
    with n show ?thesis by (simp add: padStart_def decimal_4)
  qed
qed

lemma digit_not_separator:
  "digit n \<noteq> CHR ''T''" "digit n \<noteq> CHR '' ''" "digit n \<noteq> CHR '':''"
  using digit_cases [of n] by auto

lemma toISOString_date:
  assumes "valid_date d"
  shows "split_first (CHR ''T'') (toISOString d) = iso_date d"
proof -
  from assms have "utc_year d \<le> 9999" "utc_month d < 100" "utc_day d < 100"
    by (simp_all add: valid_date_def)
  then show ?thesis
    by (simp add: toISOString_def split_first_def iso_date_def pad2 pad4 digit_not_separator)
qed

lemma toTimeString_time:
  assumes "valid_date d"
  shows "replace_colons (split_first (CHR '' '') (toTimeString d)) = clock_time d"
proof -
  from assms have "local_hours d < 100" "local_minutes d < 100" "local_seconds d < 100"
    by (simp_all add: valid_date_def)
  then show ?thesis
    by (simp add: toTimeString_def split_first_def replace_colons_def clock_time_def pad2
        digit_not_separator)
qed

lemma replace_extension_strips:
  "final_extension n base ext \<Longrightarrow> replace_extension n = base"
proof (induction base arbitrary: n)
  case Nil
  then show ?case by (auto simp: final_extension_def extension_at_def)
next
  case (Cons b bs)
  then have n: "n = b # (bs @ ''.'' @ ext)" and rest: "final_extension (bs @ ''.'' @ ext) bs ext"
    by (simp_all add: final_extension_def)
  have "\<not> extension_at (b # (bs @ ''.'' @ ext))"
    by (simp add: extension_at_def)
  with Cons.IH [OF rest] n show ?case by simp
qed

lemma replace_extension_keeps:
  "\<not> (\<exists>base ext. final_extension n base ext) \<Longrightarrow> replace_extension n = n"
proof (induction n)
  case Nil
  then show ?case by simp
next
  case (Cons c cs)
  have no_match: "\<not> extension_at (c # cs)"
  proof
    assume "extension_at (c # cs)"
    then have "final_extension (c # cs) [] cs"
      by (auto simp: extension_at_def final_extension_def)
    with Cons.prems show False by blast
  qed
  have "\<not> (\<exists>base ext. final_extension cs base ext)"
  proof
    assume "\<exists>base ext. final_extension cs base ext"
    then obtain base ext where "final_extension cs base ext" by blast
    then have "final_extension (c # cs) (c # base) ext"
      by (simp add: final_extension_def)
    with Cons.prems show False by blast
  qed
  with Cons.IH no_match show ?case by simp
qed

text \<open>
  C9. At any date of the years 0 to 9999, the note download is named
  \<open>basename_type_YYYY-MM-DD.txt\<close>: the basename is \<open>patient-visit\<close> when no file is
  active, the name of the active file without its final extension when it has one, and
  that name as it is otherwise; \<open>type\<close> is the string passed by the caller; the date is
  the UTC date. The recorded audio is named \<open>recording_YYYY-MM-DD_HH-MM-SS.wav\<close>, with
  the UTC date and the local time of day.
\<close>

theorem download_filenames:
  assumes "valid_date now"
  shows "(file_state s = None \<longrightarrow>
            download (downloadFile text ty now s) =
              ''patient-visit'' @ ''_'' @ ty @ ''_'' @ iso_date now @ ''.txt'') \<and>
         (\<forall>f base ext. file_state s = Some f \<and> final_extension (name f) base ext \<longrightarrow>
            download (downloadFile text ty now s) =
              base @ ''_'' @ ty @ ''_'' @ iso_date now @ ''.txt'') \<and>
         (\<forall>f. file_state s = Some f \<and> \<not> (\<exists>base ext. final_extension (name f) base ext) \<longrightarrow>
            download (downloadFile text ty now s) =
              name f @ ''_'' @ ty @ ''_'' @ iso_date now @ ''.txt'') \<and>
         (\<forall>blob. recordedBlob s = Some blob \<longrightarrow>
            downloadRecording now s =
              Some \<lparr>download = ''recording_'' @ iso_date now @ ''_'' @ clock_time now @ ''.wav'',
                    href = blob\<rparr>) \<and>
         generateRecordingFilename now =
           ''recording_'' @ iso_date now @ ''_'' @ clock_time now @ ''.wav''"
proof -
  have name: "generateRecordingFilename now =
      ''recording_'' @ iso_date now @ ''_'' @ clock_time now @ ''.wav''"
    using assms by (simp add: generateRecordingFilename_def toISOString_date toTimeString_time)
  have none: "file_state s = None \<longrightarrow> download (downloadFile text ty now s) =
      ''patient-visit'' @ ''_'' @ ty @ ''_'' @ iso_date now @ ''.txt''"
    using assms by (simp add: downloadFile_def toISOString_date)
  have strip: "\<forall>f base ext. file_state s = Some f \<and> final_extension (name f) base ext \<longrightarrow>
      download (downloadFile text ty now s) = base @ ''_'' @ ty @ ''_'' @ iso_date now @ ''.txt''"
    using assms by (auto simp: downloadFile_def toISOString_date replace_extension_strips)
  have keep: "\<forall>f. file_state s = Some f \<and> \<not> (\<exists>base ext. final_extension (name f) base ext) \<longrightarrow>
      download (downloadFile text ty now s) = name f @ ''_'' @ ty @ ''_'' @ iso_date now @ ''.txt''"
    using assms by (auto simp: downloadFile_def toISOString_date replace_extension_keeps)
  have rec: "\<forall>blob. recordedBlob s = Some blob \<longrightarrow> downloadRecording now s =
      Some \<lparr>download = ''recording_'' @ iso_date now @ ''_'' @ clock_time now @ ''.wav'', href = blob\<rparr>"
    using name by (simp add: downloadRecording_def)
  from none strip keep rec name show ?thesis by blast
qed

text \<open>
  \<open>visit.txt\<close> is active on 9 March 2024, 22:05:07 UTC, 23:05:07 local time.
\<close>

lemma ex_date: "iso_date example_date = ''2024-03-09''" "clock_time example_date = ''23-05-07''"
  by (simp_all add: iso_date_def clock_time_def example_date_def digit_def)

theorem download_filenames_witness:
  "valid_date example_date \<and>
   file_state (handleFileSelect visit_txt initial_state) = Some visit_txt \<and>
   final_extension (name visit_txt) ''visit'' ''txt'' \<and>
   download (downloadFile ''S: ...'' ''SOAP-Note'' example_date (handleFileSelect visit_txt initial_state))
     = ''visit_SOAP-Note_2024-03-09.txt'' \<and>
   generateRecordingFilename example_date = ''recording_2024-03-09_23-05-07.wav''"
proof -
  have v: "valid_date example_date"
    by (simp add: valid_date_def example_date_def)
  have fs: "file_state (handleFileSelect visit_txt initial_state) = Some visit_txt"
    by (simp add: handleFileSelect_def isTextFile_def visit_txt_def)
  have fe: "final_extension (name visit_txt) ''visit'' ''txt''"
    by (simp add: final_extension_def visit_txt_def)
  note d = download_filenames [OF v, of "handleFileSelect visit_txt initial_state"
      "''S: ...''" "''SOAP-Note''"]
  from d fs fe have "download (downloadFile ''S: ...'' ''SOAP-Note'' example_date
      (handleFileSelect visit_txt initial_state)) =
      ''visit'' @ ''_'' @ ''SOAP-Note'' @ ''_'' @ iso_date example_date @ ''.txt''"
    by blast
  moreover from d have "generateRecordingFilename example_date =
      ''recording_'' @ iso_date example_date @ ''_'' @ clock_time example_date @ ''.wav''"
    by blast
  ultimately show ?thesis using v fs fe by (simp add: ex_date)
qed

subsection \<open>The recording session\<close>

lemmas browser_defs = stop_tracks_def setInterval_def clearInterval_def
  requestAnimationFrame_def cancelAnimationFrame_def recorder_start_def recorder_pause_def
  recorder_resume_def recorder_stop_def updateAudioLevel_def startAudioLevelMonitoring_def
  stopAudioLevelMonitoring_def clear_intervalRef_def

lemma startRecording_session:
  "\<not> isPaused s \<Longrightarrow> session (startRecording granted s) (recorders_created s) (streams_acquired s)"
  by (simp add: session_def startRecording_def browser_defs Let_def)

lemma startRecording_callbacks:
  "quiet s \<Longrightarrow> callbacks_held (startRecording granted s)"
  by (simp add: quiet_def callbacks_held_def startRecording_def browser_defs Let_def)

lemma interval_fires_preserves:
  "session s r st \<Longrightarrow> session (interval_fires h s) r st"
  "callbacks_held s \<Longrightarrow> callbacks_held (interval_fires h s)"
  "track_stops (interval_fires h s) = track_stops s"
  by (simp_all add: session_def callbacks_held_def interval_fires_def)

lemma callbacks_held_frame_unique:
  assumes "callbacks_held s" and "x \<in> frames s" and "y \<in> frames s"
  shows "x = y"
proof -
  from assms(1,2) have "animationRef s = Some x" by (simp add: callbacks_held_def)
  moreover from assms(1,3) have "animationRef s = Some y" by (simp add: callbacks_held_def)
  ultimately show ?thesis by simp
qed

lemma animation_frame_preserves:
  "session s r st \<Longrightarrow> session (animation_frame h s) r st"
  "callbacks_held s \<Longrightarrow> callbacks_held (animation_frame h s)"
  "track_stops (animation_frame h s) = track_stops s"
  "recordingTime (animation_frame h s) = recordingTime s"
proof -
  show "session s r st \<Longrightarrow> session (animation_frame h s) r st"
    by (simp add: session_def animation_frame_def browser_defs Let_def)
  show "track_stops (animation_frame h s) = track_stops s"
    by (simp add: animation_frame_def browser_defs Let_def)
  show "recordingTime (animation_frame h s) = recordingTime s"
    by (simp add: animation_frame_def browser_defs Let_def)
  show "callbacks_held (animation_frame h s)" if c: "callbacks_held s"
  proof (cases "h \<in> frames s")
    case True
    then have e: "frames s - {h} = {}"
      using callbacks_held_frame_unique [OF c] by blast
    from c have i: "\<forall>h \<in> intervals s. intervalRef s = Some h \<and> h \<noteq> 0"
      by (simp add: callbacks_held_def)
    have "animation_frame h s = updateAudioLevel (s\<lparr>frames := {}\<rparr>)"
      using True by (simp add: animation_frame_def e)
    moreover have "callbacks_held (updateAudioLevel (s\<lparr>frames := {}\<rparr>))"
      using i by (simp add: callbacks_held_def browser_defs Let_def)
    ultimately show ?thesis by simp
  next
    case False
    with c show ?thesis by (simp add: animation_frame_def)
  qed
qed

lemma pause_noop: "\<not> (isRecording s \<and> \<not> isPaused s) \<Longrightarrow> pauseRecording s = s"
  by (auto simp: pauseRecording_def split: option.splits)

lemma resume_noop: "\<not> (isRecording s \<and> isPaused s) \<Longrightarrow> resumeRecording s = s"
  by (auto simp: resumeRecording_def split: option.splits)

lemma pause_effect:
  assumes "session s r st" "\<not> isPaused s" "callbacks_held s"
  shows "session (pauseRecording s) r st \<and> isPaused (pauseRecording s) \<and>
         recordingTime (pauseRecording s) = recordingTime s \<and> quiet (pauseRecording s) \<and>
         track_stops (pauseRecording s) = track_stops s \<and>
         intervals_created (pauseRecording s) = intervals_created s \<and>
         frames_requested (pauseRecording s) = frames_requested s"
  using assms
  by (auto simp: session_def callbacks_held_def quiet_def pauseRecording_def browser_defs Let_def
      split: option.splits)

lemma resume_effect:
  assumes "session p r st" "isPaused p" "quiet p"
  shows "session (resumeRecording p) r st \<and> \<not> isPaused (resumeRecording p) \<and>
         recordingTime (resumeRecording p) = recordingTime p \<and>
         intervalRef (resumeRecording p) = Some (Suc (intervals_created p)) \<and>
         intervals (resumeRecording p) = {Suc (intervals_created p)} \<and>
         animationRef (resumeRecording p) = Some (Suc (frames_requested p)) \<and>
         frames (resumeRecording p) = {Suc (frames_requested p)} \<and>
         audioContextRef (resumeRecording p) = Some (contexts_created p) \<and>
         contexts_created p \<in> contexts (resumeRecording p) \<and>
         callbacks_held (resumeRecording p) \<and>
         track_stops (resumeRecording p) = track_stops p"
  using assms
  by (auto simp: session_def callbacks_held_def quiet_def resumeRecording_def browser_defs Let_def
      split: option.splits)

lemma ticks_count:
  "h \<in> intervals s \<Longrightarrow>
   recordingTime ((interval_fires h ^^ n) s) = recordingTime s + n \<and>
   intervals ((interval_fires h ^^ n) s) = intervals s"
  by (induction n) (simp_all add: interval_fires_def)

lemma quiet_no_callbacks:
  "quiet s \<Longrightarrow> interval_fires h s = s \<and> animation_frame k s = s"
  by (simp add: quiet_def interval_fires_def animation_frame_def)

text \<open>
  Pause and resume in a session started once. \<open>pauseRecording\<close> changes nothing
  unless the session is Recording and not Paused, and \<open>resumeRecording\<close> changes
  nothing unless it is Paused. In a session that is Recording, with its callbacks held
  by the refs, and with \<open>t\<close> seconds elapsed:
  pausing leaves the counter at \<open>t\<close> and no timer can advance it while paused; resuming
  leaves it at \<open>t\<close>, with exactly one live timer, the new one, whose \<open>n\<close> ticks bring
  the counter to \<open>t + n\<close>; and resuming restarts level metering (a new audio context
  and exactly one pending animation frame).
\<close>

lemma pause_resume_continuity:
  "(\<not> (isRecording s \<and> \<not> isPaused s) \<longrightarrow> pauseRecording s = s) \<and>
   (\<not> (isRecording s \<and> isPaused s) \<longrightarrow> resumeRecording s = s) \<and>
   (session s r st \<and> \<not> isPaused s \<and> callbacks_held s \<longrightarrow>
      isPaused (pauseRecording s) \<and> session (pauseRecording s) r st \<and>
      recordingTime (pauseRecording s) = recordingTime s \<and>
      interval_fires h (pauseRecording s) = pauseRecording s \<and>
      \<not> isPaused (resumeRecording (pauseRecording s)) \<and>
      session (resumeRecording (pauseRecording s)) r st \<and>
      recordingTime (resumeRecording (pauseRecording s)) = recordingTime s \<and>
      intervalRef (resumeRecording (pauseRecording s)) = Some (Suc (intervals_created s)) \<and>
      intervals (resumeRecording (pauseRecording s)) = {Suc (intervals_created s)} \<and>
      recordingTime ((interval_fires (Suc (intervals_created s)) ^^ n)
                       (resumeRecording (pauseRecording s))) = recordingTime s + n \<and>
      animationRef (resumeRecording (pauseRecording s)) = Some (Suc (frames_requested s)) \<and>
      frames (resumeRecording (pauseRecording s)) = {Suc (frames_requested s)} \<and>
      audioContextRef (resumeRecording (pauseRecording s)) \<noteq> None)"
proof (intro conjI impI)
  assume "\<not> (isRecording s \<and> \<not> isPaused s)"
  then show "pauseRecording s = s" by (rule pause_noop)
next
  assume "\<not> (isRecording s \<and> isPaused s)"
  then show "resumeRecording s = s" by (rule resume_noop)
next
  assume a: "session s r st \<and> \<not> isPaused s \<and> callbacks_held s"
  then have p: "session (pauseRecording s) r st" "isPaused (pauseRecording s)"
    "recordingTime (pauseRecording s) = recordingTime s" "quiet (pauseRecording s)"
    "intervals_created (pauseRecording s) = intervals_created s"
    "frames_requested (pauseRecording s) = frames_requested s"
    using pause_effect [of s r st] by simp_all
  note q = resume_effect [OF p(1,2,4)]
  show "isPaused (pauseRecording s)" by (rule p(2))
  show "session (pauseRecording s) r st" by (rule p(1))
  show "recordingTime (pauseRecording s) = recordingTime s" by (rule p(3))
  show "interval_fires h (pauseRecording s) = pauseRecording s"
    using quiet_no_callbacks [OF p(4)] by simp
  show "\<not> isPaused (resumeRecording (pauseRecording s))" using q by simp
  show "session (resumeRecording (pauseRecording s)) r st" using q by simp
  show "recordingTime (resumeRecording (pauseRecording s)) = recordingTime s"
    using q p(3) by simp
  show "intervalRef (resumeRecording (pauseRecording s)) = Some (Suc (intervals_created s))"
    using q p(5) by simp
  show i: "intervals (resumeRecording (pauseRecording s)) = {Suc (intervals_created s)}"
    using q p(5) by simp
  show "recordingTime ((interval_fires (Suc (intervals_created s)) ^^ n)
      (resumeRecording (pauseRecording s))) = recordingTime s + n"
    using ticks_count [of "Suc (intervals_created s)" "resumeRecording (pauseRecording s)" n] i q p(3)
    by simp
  show "animationRef (resumeRecording (pauseRecording s)) = Some (Suc (frames_requested s))"
    using q p(6) by simp
  show "frames (resumeRecording (pauseRecording s)) = {Suc (frames_requested s)}"
    using q p(6) by simp
  show "audioContextRef (resumeRecording (pauseRecording s)) \<noteq> None"
    using q by simp
qed

text \<open>
  The example: three seconds into a recording, pause, resume, two more ticks.
\<close>

lemma recording_example_facts:
  "session recording_example 0 0" "callbacks_held recording_example"
  "\<not> isPaused recording_example" "recordingTime recording_example = 3"
  "intervals_created recording_example = 1" "frames_requested recording_example = 1"
  "track_stops recording_example 0 = 0"
  by (simp_all add: recording_example_def session_def callbacks_held_def startRecording_def
      browser_defs Let_def showRecorderClicked_def interval_fires_def initial_state_def)

lemma pause_resume_continuity_example:
  "session recording_example 0 0 \<and> \<not> isPaused recording_example \<and>
   callbacks_held recording_example \<and> recordingTime recording_example = 3 \<and>
   isPaused (pauseRecording recording_example) \<and>
   interval_fires 1 (pauseRecording recording_example) = pauseRecording recording_example \<and>
   recordingTime (resumeRecording (pauseRecording recording_example)) = 3 \<and>
   intervals (resumeRecording (pauseRecording recording_example)) = {2} \<and>
   recordingTime (interval_fires 2 (interval_fires 2
     (resumeRecording (pauseRecording recording_example)))) = 5 \<and>
   frames (resumeRecording (pauseRecording recording_example)) = {2}"
  using pause_resume_continuity [of recording_example 0 0 1 2] recording_example_facts
  by (simp add: numeral_2_eq_2)

lemma double_start_facts:
  "session double_start 1 1" "\<not> isPaused double_start" "recordingTime double_start = 0"
  "intervalRef double_start = Some 2" "intervals double_start = {2, 1}"
  "animationRef double_start = Some 2" "frames double_start = {2, 1}"
  "streamRef double_start = Some 1" "track_stops double_start 0 = 0"
  "state (recorders double_start 0) = recording"
  by (simp_all add: double_start_def session_def startRecording_def browser_defs Let_def
      showRecorderClicked_def initial_state_def numeral_2_eq_2)

text \<open>
  C7. The continuity of the elapsed time across pause and resume fails after a double
  start. The second \<open>startRecording\<close> overwrites \<open>intervalRef\<close>, so the timer of the first
  is out of reach of \<open>clearInterval\<close>: it advances the counter while the session is
  Paused, and after \<open>resumeRecording\<close> two timers are live, so that each second counts
  twice.
\<close>

theorem pause_resume_double_count:
  "session double_start 1 1 \<and> \<not> isPaused double_start \<and> recordingTime double_start = 0 \<and>
   isPaused (pauseRecording double_start) \<and>
   intervals (pauseRecording double_start) = {1} \<and>
   recordingTime (interval_fires 1 (pauseRecording double_start)) = 1 \<and>
   \<not> isPaused (resumeRecording (pauseRecording double_start)) \<and>
   recordingTime (resumeRecording (pauseRecording double_start)) = 0 \<and>
   intervals (resumeRecording (pauseRecording double_start)) = {3, 1} \<and>
   recordingTime (interval_fires 3 (interval_fires 1
     (resumeRecording (pauseRecording double_start)))) = 2"
  by (simp add: double_start_def session_def startRecording_def pauseRecording_def
      resumeRecording_def interval_fires_def browser_defs Let_def showRecorderClicked_def
      initial_state_def numeral_2_eq_2 numeral_3_eq_3 insert_Diff_if)

lemma fire_stop_idle: "\<not> stop_queued (recorders s r) \<Longrightarrow> fire_stop r data s = s"
  by (simp add: fire_stop_def)

lemma onstop_fields:
  "intervals (onstop r s) = intervals s" "frames (onstop r s) = frames s"
  "recorders (onstop r s) = recorders s"
  "track_stops (onstop r s) = (track_stops s)(stream (recorders s r) := Suc (track_stops s (stream (recorders s r))))"
  "recordedBlob (onstop r s) =
     (if isCancellingRef s then recordedBlob s
      else Some \<lparr>parts = chunks (recorders s r), blob_type = ''audio/wav''\<rparr>)"
  by (simp_all add: onstop_def stop_tracks_def Let_def)

lemma ondataavailable_fields:
  "intervals (ondataavailable r data s) = intervals s"
  "frames (ondataavailable r data s) = frames s"
  "track_stops (ondataavailable r data s) = track_stops s"
  "recordedBlob (ondataavailable r data s) = recordedBlob s"
  "isCancellingRef (ondataavailable r data s) = isCancellingRef s"
  "stop_queued (recorders (ondataavailable r data s) r') = stop_queued (recorders s r')"
  "stream (recorders (ondataavailable r data s) r') = stream (recorders s r')"
  by (simp_all add: ondataavailable_def)

lemma fire_stop_callbacks:
  "intervals (fire_stop r data s) = intervals s \<and> frames (fire_stop r data s) = frames s"
  by (simp add: fire_stop_def onstop_fields ondataavailable_fields)

lemma fire_stop_not_queued: "\<not> stop_queued (recorders (fire_stop r data s) r)"
  by (simp add: fire_stop_def onstop_fields ondataavailable_fields)

lemma fire_stop_quiet: "quiet s \<Longrightarrow> quiet (fire_stop r data s)"
  by (simp add: quiet_def fire_stop_callbacks)

lemma quiet_callbacks_held: "quiet s \<Longrightarrow> callbacks_held s"
  by (simp add: quiet_def callbacks_held_def)

lemma fire_stop_once:
  "fire_stop r data' (fire_stop r data s) = fire_stop r data s"
  by (rule fire_stop_idle) (rule fire_stop_not_queued)

lemma stop_effect:
  assumes "session s r st"
  shows "track_stops (stopRecording s) = track_stops s \<and>
         stop_queued (recorders (stopRecording s) r) \<and>
         stream (recorders (stopRecording s) r) = st \<and>
         state (recorders (stopRecording s) r) = inactive \<and>
         \<not> isRecording (stopRecording s) \<and> \<not> isPaused (stopRecording s) \<and>
         isCancellingRef (stopRecording s) = isCancellingRef s \<and>
         recordedBlob (stopRecording s) = recordedBlob s"
  using assms
  by (auto simp: session_def stopRecording_def browser_defs Let_def split: option.splits)

lemma stop_quiet:
  assumes "session s r st" "callbacks_held s"
  shows "quiet (stopRecording s)"
  using assms
  by (auto simp: session_def callbacks_held_def quiet_def stopRecording_def browser_defs Let_def
      split: option.splits)

lemma fire_stop_releases:
  assumes "stop_queued (recorders s r)" "stream (recorders s r) = st"
  shows "track_stops (fire_stop r data s) st = Suc (track_stops s st) \<and>
         (isCancellingRef s \<longrightarrow> recordedBlob (fire_stop r data s) = recordedBlob s) \<and>
         (\<not> isCancellingRef s \<longrightarrow> recordedBlob (fire_stop r data s) \<noteq> None)"
  using assms
  by (simp add: fire_stop_def onstop_fields ondataavailable_fields)

lemma cancel_effect:
  assumes "session s r st"
  shows "track_stops (cancelRecording s) st = Suc (track_stops s st) \<and>
         stop_queued (recorders (cancelRecording s) r) \<and>
         stream (recorders (cancelRecording s) r) = st \<and>
         state (recorders (cancelRecording s) r) = inactive \<and>
         \<not> isRecording (cancelRecording s) \<and> \<not> isPaused (cancelRecording s) \<and>
         isCancellingRef (cancelRecording s) \<and>
         recordedBlob (cancelRecording s) = None \<and>
         streamRef (cancelRecording s) = None \<and>
         recordingTime (cancelRecording s) = 0 \<and>
         showRecorder (cancelRecording s) = showRecorder s"
  using assms
  by (auto simp: session_def cancelRecording_def browser_defs Let_def split: option.splits)

lemma cancel_timeouts: "reset_timeouts (cancelRecording s) = reset_timeouts s"
  by (simp add: cancelRecording_def browser_defs Let_def split: option.splits)

lemma cancel_quiet:
  assumes "session s r st" "callbacks_held s"
  shows "quiet (cancelRecording s)"
  using assms
  by (auto simp: session_def callbacks_held_def quiet_def cancelRecording_def browser_defs Let_def
      split: option.splits)

text \<open>
  Cancelling a session. In a session that is Recording or Paused, \<open>cancelRecording\<close>
  leaves no finished audio object and sets the cancelling flag, makes a release call on the stream of the
  session and drops \<open>streamRef\<close>, leaves the recording panel as it was, and queues the
  recorder's \<open>stop\<close> event; when that event then runs, the flag suppresses the
  finalisation, so there is still no audio object, and the stream stays released. When
  no timeout of an earlier cancellation is pending, a firing of the flag-resetting
  timeout before the event changes nothing.
\<close>

lemma cancelRecording_discards:
  assumes "session s r st"
  shows "recordedBlob (cancelRecording s) = None \<and>
         isCancellingRef (cancelRecording s) \<and>
         track_stops (cancelRecording s) st = Suc (track_stops s st) \<and>
         streamRef (cancelRecording s) = None \<and>
         \<not> isRecording (cancelRecording s) \<and> \<not> isPaused (cancelRecording s) \<and>
         showRecorder (cancelRecording s) = showRecorder s \<and>
         stop_queued (recorders (cancelRecording s) r) \<and>
         recordedBlob (fire_stop r data (cancelRecording s)) = None \<and>
         0 < track_stops (fire_stop r data (cancelRecording s)) st \<and>
         (reset_timeouts s = 0 \<longrightarrow>
            recordedBlob (fire_stop r data (cancelling_reset (cancelRecording s))) = None)"
proof -
  note c = cancel_effect [OF assms]
  from c have "stop_queued (recorders (cancelRecording s) r)"
    and "stream (recorders (cancelRecording s) r) = st" by simp_all
  from fire_stop_releases [OF this, of data] c
  have "recordedBlob (fire_stop r data (cancelRecording s)) = None"
    and "0 < track_stops (fire_stop r data (cancelRecording s)) st" by simp_all
  moreover have "cancelling_reset (cancelRecording s) = cancelRecording s"
    if "reset_timeouts s = 0"
    using that cancel_timeouts [of s] by (simp add: cancelling_reset_def)
  ultimately show ?thesis using c by simp
qed

lemma cancelRecording_discards_example:
  "session recording_example 0 0 \<and>
   recordedBlob (cancelRecording recording_example) = None \<and>
   track_stops (cancelRecording recording_example) 0 = 1 \<and>
   recordedBlob (fire_stop 0 ''audio'' (cancelRecording recording_example)) = None \<and>
   session (pauseRecording recording_example) 0 0 \<and>
   isPaused (pauseRecording recording_example) \<and>
   recordedBlob (fire_stop 0 ''audio'' (cancelRecording (pauseRecording recording_example))) = None \<and>
   0 < track_stops (cancelRecording (pauseRecording recording_example)) 0"
proof -
  have p: "session (pauseRecording recording_example) 0 0"
    "isPaused (pauseRecording recording_example)"
    using pause_effect [of recording_example 0 0] recording_example_facts by simp_all
  from cancelRecording_discards [OF recording_example_facts(1), of "''audio''"]
    cancelRecording_discards [OF p(1), of "''audio''"] p recording_example_facts
  show ?thesis by simp
qed

text \<open>
  C3. Cancelling does not always end with no audio object and a released device.
  \<^item> In the second take, the timeout left by the first cancellation resets
    \<open>isCancellingRef\<close> after \<open>cancelRecording\<close> has set it again and before the \<open>stop\<close>
    event of the second recorder runs; the event then finalises the cancelled
    recording into a finished audio object.
  \<^item> After a double start, \<open>cancelRecording\<close> stops the recorder and the stream the refs
    hold, those of the second \<open>startRecording\<close>; the stream of the first receives no
    release call and its recorder keeps recording.
\<close>

theorem cancelRecording_finished_blob:
  "session second_take 1 1 \<and> reset_timeouts second_take = 1 \<and>
   recordedBlob (cancelRecording second_take) = None \<and>
   recordedBlob (fire_stop 1 ''take2'' (cancelling_reset (cancelRecording second_take))) =
     Some \<lparr>parts = [''take2''], blob_type = ''audio/wav''\<rparr> \<and>
   session double_start 1 1 \<and>
   track_stops (fire_stop 1 ''audio'' (cancelRecording double_start)) 0 = 0 \<and>
   state (recorders (fire_stop 1 ''audio'' (cancelRecording double_start)) 0) = recording"
  by (simp add: second_take_def double_start_def session_def startRecording_def
      cancelRecording_def cancelling_reset_def fire_stop_def onstop_def ondataavailable_def
      browser_defs Let_def showRecorderClicked_def initial_state_def)

text \<open>
  C1 (as amended). A stream starts with no release call when \<open>startRecording\<close> acquires
  it. In a session that is Recording or Paused:
  \<^item> \<open>stopRecording\<close> makes no release call itself; the \<open>stop\<close> event it queues makes
    exactly one, and the event runs once;
  \<^item> \<open>cancelRecording\<close> makes one release call itself and the \<open>stop\<close> event it queues
    makes a second one, two in all;
  \<^item> unmounting the component makes none: no teardown handler exists.
\<close>

theorem release_calls:
  assumes "session s r st"
  shows "track_stops (stopRecording s) st = track_stops s st \<and>
         track_stops (fire_stop r data (stopRecording s)) st = Suc (track_stops s st) \<and>
         fire_stop r data' (fire_stop r data (stopRecording s)) = fire_stop r data (stopRecording s) \<and>
         track_stops (cancelRecording s) st = Suc (track_stops s st) \<and>
         track_stops (fire_stop r data (cancelRecording s)) st = Suc (Suc (track_stops s st)) \<and>
         fire_stop r data' (fire_stop r data (cancelRecording s)) =
           fire_stop r data (cancelRecording s) \<and>
         track_stops (unmount s) st = track_stops s st \<and>
         track_stops (startRecording granted s0) (streams_acquired s0) = 0 \<and>
         (\<not> isPaused s0 \<longrightarrow>
            session (startRecording granted s0) (recorders_created s0) (streams_acquired s0))"
proof -
  note t = stop_effect [OF assms]
  from t have "stop_queued (recorders (stopRecording s) r)"
    and "stream (recorders (stopRecording s) r) = st" by simp_all
  from fire_stop_releases [OF this, of data] t
  have 1: "track_stops (fire_stop r data (stopRecording s)) st = Suc (track_stops s st)"
    by simp
  note c = cancel_effect [OF assms]
  from c have "stop_queued (recorders (cancelRecording s) r)"
    and "stream (recorders (cancelRecording s) r) = st" by simp_all
  from fire_stop_releases [OF this, of data] c
  have 2: "track_stops (fire_stop r data (cancelRecording s)) st = Suc (Suc (track_stops s st))"
    by simp
  have 3: "track_stops (startRecording granted s0) (streams_acquired s0) = 0"
    by (simp add: startRecording_def browser_defs Let_def)
  from t c 1 2 3 show ?thesis
    by (simp add: fire_stop_once unmount_def startRecording_session)
qed

text \<open>The example session, stopped or cancelled three seconds in.\<close>

theorem release_calls_witness:
  "session recording_example 0 0 \<and> track_stops recording_example 0 = 0 \<and>
   track_stops (stopRecording recording_example) 0 = 0 \<and>
   track_stops (fire_stop 0 ''audio'' (stopRecording recording_example)) 0 = 1 \<and>
   track_stops (cancelRecording recording_example) 0 = 1 \<and>
   track_stops (fire_stop 0 ''audio'' (cancelRecording recording_example)) 0 = 2"
  using release_calls [OF recording_example_facts(1), of "''audio''"] recording_example_facts
  by simp

text \<open>
  The claim as written fails on three of its exit paths. Cancelling makes two release
  calls, not one. "Generate Another Note", clicked while a recording runs, leaves the
  Recording state (\<open>isRecording\<close> is false) with the recorder still recording and the
  stream never released. Unmounting releases nothing.
\<close>

lemma reset_example_facts:
  "output_state reset_example = None" "\<not> isRecording reset_example"
  "\<not> showRecorder reset_example"
  "track_stops reset_example 0 = 0" "state (recorders reset_example 0) = recording"
  "intervals reset_example = {1}" "recordingTime reset_example = 0"
  "frames reset_example = {}"
  by (simp_all add: reset_example_def generateAnotherNote_def handleUpload_def
      handleUpload_begin_def handleUpload_settle_def upload_try_def handle_result_def
      both_truthy_def property_def str_includes_def
      handleFileSelect_def isTextFile_def visit_txt_def
      startRecording_def browser_defs Let_def showRecorderClicked_def interval_fires_def
      initial_state_def)


lemma cancel_then_stop_event:
  assumes "session s r st"
  shows "track_stops (fire_stop r data (cancelRecording s)) st = Suc (Suc (track_stops s st))"
proof -
  note c = cancel_effect [OF assms]
  from c have "stop_queued (recorders (cancelRecording s) r)"
    and "stream (recorders (cancelRecording s) r) = st" by simp_all
  from fire_stop_releases [OF this, of data] c show ?thesis by simp
qed

theorem release_calls_counterexample:
  "track_stops recording_example 0 = 0 \<and>
   track_stops (fire_stop 0 ''audio'' (cancelRecording recording_example)) 0 = 2 \<and>
   \<not> isRecording reset_example \<and> track_stops reset_example 0 = 0 \<and>
   state (recorders reset_example 0) = recording \<and>
   track_stops (unmount recording_example) 0 = 0"
  using cancel_then_stop_event [OF recording_example_facts(1), of "''audio''"]
    recording_example_facts reset_example_facts
  by (simp add: unmount_def)

text \<open>
  C2 (as amended). In a session that is Recording or Paused, with its callbacks held by
  the refs, \<open>stopRecording\<close> and \<open>cancelRecording\<close>, each of them also after
  \<open>pauseRecording\<close>, leave no live interval timer and no pending animation frame, and
  none is back when the recorder's \<open>stop\<close> event releases the stream; in such a state
  no timer tick and no animation frame has any effect. "Generate Another Note" cancels
  the pending animation frame. Unmounting the component cancels neither callback: no
  teardown handler exists.
\<close>

theorem exits_cancel_callbacks:
  assumes "session s r st" and "callbacks_held s"
  shows "quiet (stopRecording s) \<and> quiet (fire_stop r data (stopRecording s)) \<and>
         quiet (cancelRecording s) \<and> quiet (fire_stop r data (cancelRecording s)) \<and>
         (\<not> isPaused s \<longrightarrow>
            quiet (pauseRecording s) \<and>
            quiet (stopRecording (pauseRecording s)) \<and>
            quiet (fire_stop r data (stopRecording (pauseRecording s))) \<and>
            quiet (cancelRecording (pauseRecording s)) \<and>
            quiet (fire_stop r data (cancelRecording (pauseRecording s)))) \<and>
         (\<forall>s'. quiet s' \<longrightarrow> interval_fires h s' = s' \<and> animation_frame k s' = s') \<and>
         frames (generateAnotherNote s) = {} \<and>
         intervals (unmount s) = intervals s \<and> frames (unmount s) = frames s"
proof -
  have 1: "quiet (stopRecording s)" using assms by (rule stop_quiet)
  have 2: "quiet (cancelRecording s)" using assms by (rule cancel_quiet)
  have 3: "quiet (pauseRecording s) \<and>
            quiet (stopRecording (pauseRecording s)) \<and>
            quiet (fire_stop r data (stopRecording (pauseRecording s))) \<and>
            quiet (cancelRecording (pauseRecording s)) \<and>
            quiet (fire_stop r data (cancelRecording (pauseRecording s)))" if "\<not> isPaused s"
  proof -
    from pause_effect [OF assms(1) that assms(2)]
    have p: "session (pauseRecording s) r st" "quiet (pauseRecording s)" by simp_all
    from p(2) have h: "callbacks_held (pauseRecording s)" by (rule quiet_callbacks_held)
    from stop_quiet [OF p(1) h] cancel_quiet [OF p(1) h] p(2) show ?thesis
      by (simp add: fire_stop_quiet)
  qed
  have 4: "frames (generateAnotherNote s) = {}"
    using assms(2)
    by (auto simp: callbacks_held_def generateAnotherNote_def browser_defs Let_def
        split: option.splits)
  from 1 2 3 4 show ?thesis by (simp add: fire_stop_quiet quiet_no_callbacks unmount_def)
qed

theorem exits_cancel_callbacks_witness:
  "session recording_example 0 0 \<and> callbacks_held recording_example \<and>
   intervals recording_example = {1} \<and> frames recording_example = {1} \<and>
   quiet (stopRecording recording_example) \<and>
   quiet (fire_stop 0 ''audio'' (stopRecording recording_example)) \<and>
   quiet (cancelRecording recording_example) \<and>
   quiet (cancelRecording (pauseRecording recording_example)) \<and>
   interval_fires 1 (stopRecording recording_example) = stopRecording recording_example \<and>
   animation_frame 1 (stopRecording recording_example) = stopRecording recording_example \<and>
   frames (generateAnotherNote recording_example) = {} \<and>
   intervals (unmount recording_example) = {1} \<and> frames (unmount recording_example) = {1}"
proof -
  have live: "intervals recording_example = {1}" "frames recording_example = {1}"
    by (simp_all add: recording_example_def startRecording_def browser_defs Let_def
        showRecorderClicked_def interval_fires_def initial_state_def)
  note e = exits_cancel_callbacks [OF recording_example_facts(1,2), of "''audio''" 1 1]
  from e have q: "quiet (stopRecording recording_example)" by simp
  from e q have "interval_fires 1 (stopRecording recording_example) = stopRecording recording_example"
    and "animation_frame 1 (stopRecording recording_example) = stopRecording recording_example"
    by blast+
  with e live recording_example_facts show ?thesis by simp
qed

text \<open>
  The claim as written fails on three exit paths. Unmounting cancels neither callback.
  "Generate Another Note" stops the level metering but never calls \<open>clearInterval\<close>:
  after the reset the timer of the abandoned recording is live and its next tick moves
  the counter from 0 to 1. And after a double start the refs hold the callbacks of the
  second \<open>startRecording\<close> only: \<open>stopRecording\<close> and \<open>cancelRecording\<close> leave the timer
  and the animation frame of the first one live, and that timer still ticks after the
  \<open>stop\<close> event has released the stream of the session.
\<close>

theorem exits_cancel_callbacks_counterexample:
  "intervals (unmount recording_example) = {1} \<and> frames (unmount recording_example) = {1} \<and>
   \<not> isRecording reset_example \<and> intervals reset_example = {1} \<and>
   recordingTime reset_example = 0 \<and>
   recordingTime (interval_fires 1 reset_example) = 1 \<and>
   session double_start 1 1 \<and>
   intervals (stopRecording double_start) = {1} \<and> frames (stopRecording double_start) = {1} \<and>
   intervals (cancelRecording double_start) = {1} \<and> frames (cancelRecording double_start) = {1} \<and>
   track_stops (fire_stop 1 ''audio'' (stopRecording double_start)) 1 = 1 \<and>
   recordingTime (fire_stop 1 ''audio'' (stopRecording double_start)) = 0 \<and>
   recordingTime (interval_fires 1 (fire_stop 1 ''audio'' (stopRecording double_start))) = 1"
proof -
  have live: "intervals recording_example = {1}" "frames recording_example = {1}"
    by (simp_all add: recording_example_def startRecording_def browser_defs Let_def
        showRecorderClicked_def interval_fires_def initial_state_def)
  have twice: "intervals (stopRecording double_start) = {1}"
    "frames (stopRecording double_start) = {1}"
    "intervals (cancelRecording double_start) = {1}"
    "frames (cancelRecording double_start) = {1}"
    "track_stops (fire_stop 1 ''audio'' (stopRecording double_start)) 1 = 1"
    "recordingTime (fire_stop 1 ''audio'' (stopRecording double_start)) = 0"
    "recordingTime (interval_fires 1 (fire_stop 1 ''audio'' (stopRecording double_start))) = 1"
    by (simp_all add: double_start_def startRecording_def stopRecording_def cancelRecording_def
        fire_stop_def onstop_def ondataavailable_def interval_fires_def browser_defs Let_def
        showRecorderClicked_def initial_state_def numeral_2_eq_2 insert_Diff_if)
  from live twice reset_example_facts double_start_facts(1) show ?thesis
    by (simp add: unmount_def interval_fires_def)
qed

end
